theory Spec2Isabelle
  imports Main "HOL-Library.Word" "HOL-Library.AList"
begin

section \<open>Stratum server (pow/stratum\_server.cpp)\<close>

subsection \<open>Access control: the API-key file\<close>

text \<open>
  \<^verbatim>\<open>Server::AccessControl\<close> holds the flag \<^verbatim>\<open>_enabled\<close>, the file name, the
  modification time of the file at the last reload and the key set (a
  \<^verbatim>\<open>std::set<std::string>\<close>). What one call of \<^verbatim>\<open>refresh()\<close> sees of the file
  system is a \<open>FileView\<close>: either \<^verbatim>\<open>last_write_time\<close> throws (caught and logged by
  \<^verbatim>\<open>refresh\<close>), or it returns a time and the \<^verbatim>\<open>ifstream\<close> then delivers the
  bytes of the file (no bytes when the stream cannot be opened: \<^verbatim>\<open>getline\<close> fails at once
  and the loop body never runs).
\<close>

datatype FileView = NoSuchFile | FileAt int string

record AccessControl =
  acl_enabled :: bool
  acl_keysFileName :: string
  acl_lastModified :: int
  acl_keys :: "string set"

text \<open>
  \<^verbatim>\<open>std::getline\<close> in a \<^verbatim>\<open>while\<close> loop: a line ends at a newline, which is dropped;
  bytes after the last newline form a last line; nothing after the last newline gives no
  further line. The accumulator holds the current line reversed.
\<close>

fun getlines_acc :: "string \<Rightarrow> string \<Rightarrow> string list" where
  "getlines_acc cur [] = (if cur = [] then [] else [rev cur])"
| "getlines_acc cur (c # cs) =
     (if c = CHR 0x0A then rev cur # getlines_acc [] cs else getlines_acc (c # cur) cs)"

definition getlines :: "string \<Rightarrow> string list" where
  "getlines s = getlines_acc [] s"

text \<open>
  \<^verbatim>\<open>boost::algorithm::trim\<close> removes the leading and trailing characters for which
  \<^verbatim>\<open>std::isspace\<close> holds in the classic locale: space, tab, newline, vertical tab,
  form feed and carriage return.
\<close>

definition is_space :: "char \<Rightarrow> bool" where
  "is_space c = (c = CHR 0x20 \<or> c = CHR 0x09 \<or> c = CHR 0x0A \<or> c = CHR 0x0B
                 \<or> c = CHR 0x0C \<or> c = CHR 0x0D)"

definition trim :: "string \<Rightarrow> string" where
  "trim s = rev (dropWhile is_space (rev (dropWhile is_space s)))"

text \<open>The body of the \<^verbatim>\<open>while (std::getline(file, line))\<close> loop, over all lines.\<close>

definition read_keys :: "string \<Rightarrow> string set" where
  "read_keys content = set (filter (\<lambda>line. \<not> length line < 8) (map trim (getlines content)))"

definition refresh :: "FileView \<Rightarrow> AccessControl \<Rightarrow> AccessControl" where
  "refresh fv a =
     (if \<not> acl_enabled a then a
      else case fv of
        NoSuchFile \<Rightarrow> a
      | FileAt t content \<Rightarrow>
          if t \<le> acl_lastModified a then a
          else a\<lparr>acl_lastModified := t, acl_keys := read_keys content\<rparr>)"

definition check :: "AccessControl \<Rightarrow> string \<Rightarrow> bool" where
  "check a key = (if \<not> acl_enabled a then True else key \<in> acl_keys a)"

text \<open>The constructor: \<^verbatim>\<open>_enabled(!keysFileName.empty())\<close>, time 0, then one refresh.\<close>

definition AccessControl_new :: "string \<Rightarrow> AccessControl" where
  "AccessControl_new keysFileName =
     \<lparr>acl_enabled = (keysFileName \<noteq> []), acl_keysFileName = keysFileName,
      acl_lastModified = 0, acl_keys = {}\<rparr>"

definition AccessControl_init :: "string \<Rightarrow> FileView \<Rightarrow> AccessControl" where
  "AccessControl_init keysFileName fv = refresh fv (AccessControl_new keysFileName)"

text \<open>
  The timer calls \<^verbatim>\<open>refresh\<close> again and again; \<open>refresh_all\<close> is the state after the
  calls that saw the given views, in order.
\<close>

fun refresh_all :: "FileView list \<Rightarrow> AccessControl \<Rightarrow> AccessControl" where
  "refresh_all [] a = a"
| "refresh_all (fv # fvs) a = refresh_all fvs (refresh fv a)"

text \<open>
  A refresh is triggered by the modification time when the control is enabled and the
  file's time is later than the stored one. \<open>last_reload\<close> follows a run of refreshes
  and keeps the file content seen by the last triggered one.
\<close>

definition reloads :: "FileView \<Rightarrow> AccessControl \<Rightarrow> bool" where
  "reloads fv a = (acl_enabled a \<and> (case fv of NoSuchFile \<Rightarrow> False
                                     | FileAt t content \<Rightarrow> acl_lastModified a < t))"

fun content_of :: "FileView \<Rightarrow> string" where
  "content_of NoSuchFile = []"
| "content_of (FileAt t content) = content"

fun last_reload :: "FileView list \<Rightarrow> AccessControl \<Rightarrow> string option \<Rightarrow> string option" where
  "last_reload [] a r = r"
| "last_reload (fv # fvs) a r =
     last_reload fvs (refresh fv a) (if reloads fv a then Some (content_of fv) else r)"

text \<open>The keys a file content holds: its trimmed lines of at least 8 characters.\<close>

definition key_lines :: "string \<Rightarrow> string set" where
  "key_lines content = {k. \<exists>line \<in> set (getlines content). k = trim line \<and> 8 \<le> length k}"

subsection \<open>Connections and the server state\<close>

type_synonym PeerId = "64 word"
type_synonym Height = "64 word"
type_synonym Hash = "256 word"

record PoW =
  pow_Indices :: "8 word list"
  pow_Nonce :: "8 word list"
  pow_Difficulty :: "32 word"

record Login =
  login_id :: string
  login_api_key :: string

record Solution =
  sol_id :: string
  sol_nonce :: string
  sol_output :: string

datatype ResultCode = login_failed | solution_rejected | solution_accepted

text \<open>
  The frames the server writes, before their JSON encoding. A \<^verbatim>\<open>SerializedMsg\<close> is the
  list of frames that \<^verbatim>\<open>append_json_msg\<close> has pushed through \<^verbatim>\<open>_fw\<close>.
\<close>

datatype Frame =
    Job string Hash PoW Height
  | Result string ResultCode
  | SolutionResult string ResultCode Hash Height

type_synonym SerializedMsg = "Frame list"

text \<open>
  A connection: the login flag, whether a write to its stream succeeds, what has been
  written to the stream, and whether the stream was shut down.
\<close>

record Connection =
  c_loggedIn :: bool
  c_writable :: bool
  c_written :: "SerializedMsg list"
  c_shutdown :: bool

text \<open>
  A \<^verbatim>\<open>BlockFound\<close> callback is a \<^verbatim>\<open>std::function<void()>\<close>; the model names callbacks
  by numbers and records every invocation in \<open>found_log\<close>. \<open>None\<close> is the empty
  \<^verbatim>\<open>std::function\<close> a server holds before its first job.
\<close>

type_synonym Callback = nat

record Server =
  connections :: "(PeerId \<times> Connection) list"
  deadConnections :: "PeerId list"
  currentMsg :: SerializedMsg
  recentJob_id :: string
  recentJob_msg :: SerializedMsg
  recentResult_id :: string
  recentResult_pow :: PoW
  recentResult_resultFrom :: PeerId
  recentResult_onBlockFound :: "Callback option"
  acl :: AccessControl
  found_log :: "Callback list"

datatype Fault = bad_function_call | null_connection

definition Connection_init :: "bool \<Rightarrow> Connection" where
  "Connection_init writable =
     \<lparr>c_loggedIn = False, c_writable = writable, c_written = [], c_shutdown = False\<rparr>"

text \<open>
  Modelled from the spec: \<^verbatim>\<open>Connection::set_logged_in\<close> is defined in stratum\_server.h,
  which is not among the sources. By the specification a peer is \<^verbatim>\<open>NotLoggedIn\<close> at first
  and \<^verbatim>\<open>LoggedIn\<close> after a valid API key.
\<close>

definition set_logged_in :: "Connection \<Rightarrow> Connection" where
  "set_logged_in c = c\<lparr>c_loggedIn := True\<rparr>"

text \<open>\<^verbatim>\<open>Connection::send_msg(msg, onlyIfLoggedIn, shutdown)\<close>: the result and the connection.\<close>

definition send_msg :: "SerializedMsg \<Rightarrow> bool \<Rightarrow> bool \<Rightarrow> Connection \<Rightarrow> bool \<times> Connection" where
  "send_msg msg onlyIfLoggedIn shutdown c =
     (if onlyIfLoggedIn \<and> \<not> c_loggedIn c then (True, c)
      else if c_writable c
        then (True, c\<lparr>c_written := c_written c @ [msg],
                      c_shutdown := (c_shutdown c \<or> shutdown)\<rparr>)
        else (False, c))"

definition append_json_msg :: "Frame \<Rightarrow> Server \<Rightarrow> Server" where
  "append_json_msg f s = s\<lparr>currentMsg := currentMsg s @ [f]\<rparr>"

definition on_stream_accepted :: "PeerId \<Rightarrow> bool \<Rightarrow> Server \<Rightarrow> Server" where
  "on_stream_accepted peer writable s =
     s\<lparr>connections := AList.update peer (Connection_init writable) (connections s)\<rparr>"

text \<open>
  \<^verbatim>\<open>Server::on_login\<close>. The source asserts that the peer is connected; a missing entry
  would make \<^verbatim>\<open>_connections[from]\<close> a null pointer.
\<close>

definition on_login :: "PeerId \<Rightarrow> Login \<Rightarrow> Server \<Rightarrow> Fault + (bool \<times> Server)" where
  "on_login from login s =
     (case map_of (connections s) from of
        None \<Rightarrow> Inl null_connection
      | Some conn \<Rightarrow>
          if check (acl s) (login_api_key login) then
            (let (sent, conn') = send_msg (recentJob_msg s) True False (set_logged_in conn)
             in Inr (sent, s\<lparr>connections := AList.update from conn' (connections s)\<rparr>))
          else
            (let s1 = append_json_msg (Result (login_id login) login_failed) s;
                 (sent, conn') = send_msg (currentMsg s1) False True conn
             in Inr (False, s1\<lparr>connections := AList.update from conn' (connections s1),
                               currentMsg := []\<rparr>)))"

text \<open>
  \<^verbatim>\<open>Server::on_solution\<close>. \<^verbatim>\<open>Solution::fill_pow\<close> is declared outside this file; it is
  the parameter \<open>fill_pow\<close>, and its boolean result is not looked at by the source.
  Calling an empty \<^verbatim>\<open>std::function\<close> throws \<^verbatim>\<open>std::bad_function_call\<close>, after the
  three assignments.
\<close>

definition on_solution ::
  "(Solution \<Rightarrow> PoW \<Rightarrow> PoW) \<Rightarrow> PeerId \<Rightarrow> Solution \<Rightarrow> Server \<Rightarrow> (Fault \<times> Server) + (bool \<times> Server)" where
  "on_solution fill_pow from sol s =
     (let s1 = s\<lparr>recentResult_id := sol_id sol,
                 recentResult_pow := fill_pow sol (recentResult_pow s),
                 recentResult_resultFrom := from\<rparr>
      in case recentResult_onBlockFound s1 of
           None \<Rightarrow> Inl (bad_function_call, s1)
         | Some cb \<Rightarrow> Inr (True, s1\<lparr>found_log := found_log s1 @ [cb]\<rparr>))"

text \<open>\<^verbatim>\<open>Server::Connection::on_message(const stratum::Solution&)\<close> of the connection whose \<^verbatim>\<open>_id\<close> is \<open>cid\<close>.\<close>

definition Connection_on_message_Solution ::
  "(Solution \<Rightarrow> PoW \<Rightarrow> PoW) \<Rightarrow> PeerId \<Rightarrow> Solution \<Rightarrow> Server \<Rightarrow> (Fault \<times> Server) + (bool \<times> Server)" where
  "Connection_on_message_Solution fill_pow cid sol s = on_solution fill_pow cid sol s"

definition Connection_on_message_Login ::
  "PeerId \<Rightarrow> Login \<Rightarrow> Server \<Rightarrow> Fault + (bool \<times> Server)" where
  "Connection_on_message_Login cid login s = on_login cid login s"

definition on_bad_peer :: "PeerId \<Rightarrow> Server \<Rightarrow> Server" where
  "on_bad_peer from s = s\<lparr>connections := AList.delete from (connections s)\<rparr>"

text \<open>
  The first loop of \<^verbatim>\<open>new_job\<close>: send the job to every connection, collect the peers whose
  write failed.
\<close>

fun send_all :: "SerializedMsg \<Rightarrow> (PeerId \<times> Connection) list
                   \<Rightarrow> (PeerId \<times> Connection) list \<times> PeerId list" where
  "send_all msg [] = ([], [])"
| "send_all msg ((p, c) # rest) =
     (let (sent, c') = send_msg msg True False c;
          (rest', dead) = send_all msg rest
      in ((p, c') # rest', if sent then dead else p # dead))"

fun erase_all :: "PeerId list \<Rightarrow> (PeerId \<times> Connection) list \<Rightarrow> (PeerId \<times> Connection) list" where
  "erase_all [] cs = cs"
| "erase_all (p # ps) cs = erase_all ps (AList.delete p cs)"

definition new_job :: "string \<Rightarrow> Hash \<Rightarrow> PoW \<Rightarrow> Height \<Rightarrow> Callback \<Rightarrow> Server \<Rightarrow> Server" where
  "new_job job_id input pow height callback s =
     (let s1 = s\<lparr>recentJob_id := job_id, recentResult_onBlockFound := Some callback\<rparr>;
          s2 = append_json_msg (Job job_id input pow height) s1;
          s3 = s2\<lparr>recentJob_msg := currentMsg s2, currentMsg := []\<rparr>;
          (conns, dead) = send_all (recentJob_msg s3) (connections s3);
          s4 = s3\<lparr>connections := conns, deadConnections := deadConnections s3 @ dead\<rparr>
      in s4\<lparr>connections := erase_all (deadConnections s4) (connections s4),
            deadConnections := []\<rparr>)"

text \<open>
  \<^verbatim>\<open>Server::solution_result\<close>. \<^verbatim>\<open>_connections[_recentResult.resultFrom]\<close> on a peer that
  is no longer in the map yields a null pointer, which the source dereferences.
\<close>

definition solution_result :: "string \<Rightarrow> bool \<Rightarrow> Hash \<Rightarrow> Height \<Rightarrow> Server \<Rightarrow> Fault + Server" where
  "solution_result jobID accepted blockHash blockHeight s =
     (let s1 = (if \<not> accepted then append_json_msg (Result jobID solution_rejected) s
                else append_json_msg (SolutionResult jobID solution_accepted blockHash blockHeight) s)
      in case map_of (connections s1) (recentResult_resultFrom s1) of
           None \<Rightarrow> Inl null_connection
         | Some conn \<Rightarrow>
             (let (sent, conn') = send_msg (currentMsg s1) True False conn
              in Inr (s1\<lparr>connections := AList.update (recentResult_resultFrom s1) conn' (connections s1),
                        currentMsg := []\<rparr>)))"

definition stop_current :: "Server \<Rightarrow> Server" where
  "stop_current s = s\<lparr>recentJob_id := []\<rparr>"

subsection \<open>Reading results and a sample server\<close>

text \<open>Projections used to state what a handler left behind, whether it threw or returned.\<close>

fun found_after :: "(Fault \<times> Server) + (bool \<times> Server) \<Rightarrow> Callback list" where
  "found_after (Inl (f, s)) = found_log s"
| "found_after (Inr (b, s)) = found_log s"

fun server_after :: "(Fault \<times> Server) + (bool \<times> Server) \<Rightarrow> Server" where
  "server_after (Inl (f, s)) = s"
| "server_after (Inr (b, s)) = s"

fun result_server :: "Fault + Server \<Rightarrow> Server option" where
  "result_server (Inl f) = None"
| "result_server (Inr s) = Some s"

definition conn_written :: "PeerId \<Rightarrow> Server \<Rightarrow> SerializedMsg list" where
  "conn_written p s = (case map_of (connections s) p of None \<Rightarrow> [] | Some c \<Rightarrow> c_written c)"

text \<open>
  Sample data: two versions of a key file, a run of file views, and a server with three
  peers of which the third has not logged in.
\<close>

definition demo_keys_v1 :: string where
  "demo_keys_v1 = ''abcdefgh'' @ [CHR 0x0A] @ ''short'' @ [CHR 0x0A]
                  @ ''  miner-key-0001  '' @ [CHR 0x0D, CHR 0x0A]"

definition demo_keys_v2 :: string where
  "demo_keys_v2 = ''  miner-key-0002'' @ [CHR 0x0A] @ ''1234567'' @ [CHR 0x0A]"

definition demo_views :: "FileView list" where
  "demo_views = [FileAt 5 demo_keys_v2, NoSuchFile, FileAt 9 demo_keys_v2, FileAt 7 demo_keys_v1]"

definition demo_pow :: PoW where
  "demo_pow = \<lparr>pow_Indices = [], pow_Nonce = [], pow_Difficulty = 0\<rparr>"

definition demo_fill_pow :: "Solution \<Rightarrow> PoW \<Rightarrow> PoW" where
  "demo_fill_pow sol pow =
     pow\<lparr>pow_Indices := map (\<lambda>c. of_nat (of_char c)) (sol_output sol),
         pow_Nonce := map (\<lambda>c. of_nat (of_char c)) (sol_nonce sol)\<rparr>"

definition demo_solution :: Solution where
  "demo_solution = \<lparr>sol_id = ''J1'', sol_nonce = ''0a'', sol_output = ''ff''\<rparr>"

definition demo_server :: Server where
  "demo_server =
     \<lparr>connections = [(1, \<lparr>c_loggedIn = True, c_writable = True, c_written = [], c_shutdown = False\<rparr>),
                     (2, \<lparr>c_loggedIn = True, c_writable = True, c_written = [], c_shutdown = False\<rparr>),
                     (3, Connection_init True)],
      deadConnections = [], currentMsg = [],
      recentJob_id = [], recentJob_msg = [],
      recentResult_id = [], recentResult_pow = demo_pow, recentResult_resultFrom = 0,
      recentResult_onBlockFound = None,
      acl = AccessControl_init ''keys.txt'' (FileAt 5 demo_keys_v1),
      found_log = []\<rparr>"

definition demo_job_server :: Server where
  "demo_job_server = new_job ''J1'' 0 demo_pow 10 7 demo_server"

section \<open>Wallet transactions (wallet/wallet\_transaction.cpp, wallet/wallet\_db.h)\<close>

subsection \<open>Data\<close>

type_synonym Amount = "64 word"
type_synonym Timestamp = "64 word"
type_synonym TxID = "128 word"
type_synonym PeerID = "256 word"

text \<open>
  Scalars, curve points, outputs and signatures are values of the cryptographic library,
  which is outside the wallet; the model treats them as opaque numbers and leaves every
  operation on them to the record \<open>Crypto\<close> below.
\<close>

type_synonym Scalar = nat
type_synonym Point = nat
type_synonym Output = nat
type_synonym Signature = nat

datatype Key_Type = Regular | Change | Bbs | KerW

text \<open>\<^verbatim>\<open>Key::IDV\<close>, the identifier of a coin, and \<^verbatim>\<open>Key::ID\<close>, an identifier without value.\<close>

record Key_ID =
  kid_Idx :: "64 word"
  kid_Type :: Key_Type
  kid_SubIdx :: "32 word"

record Coin_ID =
  m_Idx :: "64 word"
  m_Type :: Key_Type
  m_SubIdx :: "32 word"
  m_Value :: Amount

datatype Coin_Status = Unavailable | Available | Maturing | Outgoing | Incoming | ChangeV0 | Spent

record Coin =
  m_ID :: Coin_ID
  m_status :: Coin_Status
  m_createHeight :: Height
  m_maturity :: Height
  m_confirmHeight :: Height
  m_lockedHeight :: Height
  m_createTxId :: "TxID option"
  m_spentTxId :: "TxID option"
  m_sessionId :: "32 word"

record WalletID =
  m_Channel :: "64 word"
  m_Pk :: PeerID

record WalletAddress =
  m_walletID :: WalletID
  m_label :: string
  m_category :: string
  m_createTime :: Timestamp
  m_duration :: "64 word"
  m_OwnID :: "64 word"

datatype TxStatus = Pending | InProgress | Cancelled | Completed | Failed | Registered

text \<open>
  \<^verbatim>\<open>TxFailureReason\<close> is generated by a macro of wallet/common.h; the reasons are those
  this file uses, which are the ones the specification lists. The reason
  \<^verbatim>\<open>Cancelled\<close> is written \<open>ReasonCancelled\<close>, the status has the name.
\<close>

datatype TxFailureReason =
    Unknown | ReasonCancelled | NoInputs | InvalidPeerSignature | InvalidTransaction
  | FailedToRegister | FailedToSendParameters | TransactionExpired

datatype State =
    Initial | Invitation | PeerConfirmation | InvitationConfirmation | Registration
  | KernelConfirmation

datatype TxType = Simple

record TxKernel =
  k_Fee :: Amount
  k_Height_Min :: Height
  k_Height_Max :: Height
  k_Commitment :: Point
  k_Signature_NoncePub :: Point
  k_Signature_k :: Scalar

record Transaction =
  t_vKernels :: "TxKernel list"
  t_Offset :: Scalar
  t_vInputs :: "Point list"
  t_vOutputs :: "Output list"

record PaymentConfirmation =
  pc_KernelID :: Hash
  pc_Value :: Amount
  pc_Sender :: PeerID
  pc_Signature :: Signature

text \<open>
  The parameter bag of one transaction. The store keeps a blob for each parameter id and
  the typed accessors of wallet\_db.h (de)serialise it; the model keeps the typed value,
  \<open>None\<close> where the store has no row.
\<close>

record TxParams =
  p_Amount :: "Amount option"
  p_AmountList :: "Amount list option"
  p_Fee :: "Amount option"
  p_MinHeight :: "Height option"
  p_MaxHeight :: "Height option"
  p_IsSender :: "bool option"
  p_IsInitiator :: "bool option"
  p_MyID :: "WalletID option"
  p_PeerID :: "WalletID option"
  p_MyAddressID :: "64 word option"
  p_PeerProtoVersion :: "32 word option"
  p_Status :: "TxStatus option"
  p_State :: "State option"
  p_Inputs :: "Point list option"
  p_Outputs :: "Output list option"
  p_Offset :: "Scalar option"
  p_Change :: "Amount option"
  p_BlindingExcess :: "Scalar option"
  p_MyNonce :: "Hash option"
  p_PeerPublicExcess :: "Point option"
  p_PeerPublicNonce :: "Point option"
  p_PeerSignature :: "Scalar option"
  p_PeerInputs :: "Point list option"
  p_PeerOutputs :: "Output list option"
  p_PeerOffset :: "Scalar option"
  p_PaymentConfirmation :: "Signature option"
  p_KernelID :: "Hash option"
  p_KernelProofHeight :: "Height option"
  p_TransactionRegistered :: "bool option"
  p_FailureReason :: "TxFailureReason option"
  p_ModifyTime :: "Timestamp option"

text \<open>The parameters a \<^verbatim>\<open>SetTxParameter\<close> message to the peer carries.\<close>

datatype MsgParam =
    P_FailureReason TxFailureReason
  | P_Amount Amount
  | P_Fee Amount
  | P_MinHeight Height
  | P_MaxHeight Height
  | P_IsSender bool
  | P_PeerProtoVersion "32 word"
  | P_PeerPublicExcess Point
  | P_PeerPublicNonce Point
  | P_PeerSignature Scalar
  | P_PeerInputs "Point list"
  | P_PeerOutputs "Output list"
  | P_PeerOffset Scalar
  | P_PaymentConfirmation Signature
  | P_TransactionRegistered bool

record SetTxParameter =
  msg_From :: WalletID
  msg_TxID :: TxID
  msg_Type :: TxType
  msg_Parameters :: "MsgParam list"

text \<open>The calls made on the \<^verbatim>\<open>INegotiatorGateway\<close>, in order.\<close>

datatype GatewayCall =
    send_tx_params WalletID SetTxParameter
  | register_tx TxID Transaction
  | confirm_kernel TxID TxKernel
  | on_tx_completed TxID

text \<open>
  The exceptions \<^verbatim>\<open>BaseTransaction::Update\<close> distinguishes: a
  \<^verbatim>\<open>TransactionFailedException\<close> with its notify flag and reason, and any other
  \<^verbatim>\<open>std::exception\<close>.
\<close>

datatype exn = TransactionFailedException bool TxFailureReason | std_exception

subsection \<open>The environment of a transaction\<close>

text \<open>
  The cryptographic library: group operations on scalars and points, key derivation,
  commitments, kernel hashing, partial Schnorr signatures, payment confirmations and the
  validity check of a transaction.
\<close>

record Crypto =
  sc_zero :: Scalar
  sc_add :: "Scalar \<Rightarrow> Scalar \<Rightarrow> Scalar"
  sc_neg :: "Scalar \<Rightarrow> Scalar"
  pt_zero :: Point
  pt_add :: "Point \<Rightarrow> Point \<Rightarrow> Point"
  G_mul :: "Scalar \<Rightarrow> Point"
  calcCommitment :: "Coin_ID \<Rightarrow> Scalar \<times> Point"
  Output_Create :: "Coin_ID \<Rightarrow> Scalar \<times> Output"
  DeriveKey :: "Key_ID \<Rightarrow> Scalar"
  DeriveNonce :: "Hash \<Rightarrow> Scalar"
  Kernel_get_Hash :: "TxKernel \<Rightarrow> Hash"
  Kernel_get_ID :: "TxKernel \<Rightarrow> Hash"
  MultiSig_SignPartial :: "Scalar \<Rightarrow> Point \<Rightarrow> Hash \<Rightarrow> Scalar \<Rightarrow> Scalar"
  Signature_IsValidPartial :: "Point \<Rightarrow> Scalar \<Rightarrow> Hash \<Rightarrow> Point \<Rightarrow> Point \<Rightarrow> bool"
  PaymentConfirmation_IsValid :: "PaymentConfirmation \<Rightarrow> PeerID \<Rightarrow> bool"
  PaymentConfirmation_Sign :: "PaymentConfirmation \<Rightarrow> Scalar \<Rightarrow> Signature"
  Sk2Pk :: "Scalar \<Rightarrow> PeerID \<times> Scalar"
  Transaction_Normalize :: "Transaction \<Rightarrow> Transaction"
  Transaction_IsValid :: "Transaction \<Rightarrow> bool"

text \<open>
  What is fixed while one \<^verbatim>\<open>Update()\<close> or \<^verbatim>\<open>Cancel()\<close> runs. The wallet store is
  an interface (\<^verbatim>\<open>IWalletDB\<close>) whose implementation is not in this file; its coin
  operations are functions on a store state of any type \<open>'db\<close>:
  \<^item> \<open>db_selectCoins amount lock\<close> returns the selection and the store after it,
  \<^item> \<open>db_store coin\<close> returns the coin as stored (the store may give it an id) and the
    store, \<open>db_save coins\<close> and \<open>db_rollbackTx txid\<close> return the store,
  \<^item> \<open>db_visit\<close> lists the coins \<^verbatim>\<open>visit\<close> passes to its callback,
  \<^item> \<open>db_AllocateKidRange n\<close> returns the first id of the range and the store,
  \<^item> \<open>db_getAddress\<close> looks an address up; \<open>db_deleteTx\<close> deletes a transaction and
    may change the parameter bag and the store.
  The gateway's \<^verbatim>\<open>get_tip\<close> gives \<open>e_tip\<close> (\<open>None\<close> when it returns false),
  \<^verbatim>\<open>getTimestamp()\<close> gives \<open>e_now\<close>, \<^verbatim>\<open>ECC::GenRandom\<close> gives \<open>e_random\<close>.
  \<open>e_MaxHeight\<close> is the constant \<^verbatim>\<open>MaxHeight\<close> and \<open>e_Maturity_Std\<close> the value of
  \<^verbatim>\<open>Rules::get().Maturity.Std\<close>, both declared in the core library.
  \<open>e_missing\<close> is the exception \<^verbatim>\<open>GetMandatoryParameter\<close> throws when the parameter
  is absent; that template is defined in wallet\_transaction.h.
\<close>

record 'db Env =
  e_TxID :: TxID
  e_tip :: "Height option"
  e_now :: Timestamp
  e_random :: Hash
  e_MaxHeight :: Height
  e_Maturity_Std :: Height
  e_missing :: exn
  crypto :: Crypto
  db_selectCoins :: "Amount \<Rightarrow> bool \<Rightarrow> 'db \<Rightarrow> Coin list \<times> 'db"
  db_store :: "Coin \<Rightarrow> 'db \<Rightarrow> Coin \<times> 'db"
  db_save :: "Coin list \<Rightarrow> 'db \<Rightarrow> 'db"
  db_visit :: "'db \<Rightarrow> Coin list"
  db_rollbackTx :: "TxID \<Rightarrow> 'db \<Rightarrow> 'db"
  db_deleteTx :: "TxID \<Rightarrow> TxParams \<times> 'db \<Rightarrow> TxParams \<times> 'db"
  db_AllocateKidRange :: "64 word \<Rightarrow> 'db \<Rightarrow> 64 word \<times> 'db"
  db_getAddress :: "WalletID \<Rightarrow> WalletAddress option"

text \<open>
  What a transaction object can change: its parameter bag, the store, the calls it has
  made on the gateway, and its own cache \<^verbatim>\<open>m_IsInitiator\<close>.
\<close>

record 'db World =
  bag :: TxParams
  db :: "'db"
  gateway :: "GatewayCall list"
  m_IsInitiator :: "bool option"

text \<open>
  A member function that may throw maps the world to an exception or a result, and the
  world it left behind in either case.
\<close>

type_synonym ('db, 'a) action = "'db World \<Rightarrow> (exn + 'a) \<times> 'db World"

definition ret :: "'a \<Rightarrow> ('db, 'a) action" where
  "ret x w = (Inr x, w)"

definition throw :: "exn \<Rightarrow> ('db, 'a) action" where
  "throw e w = (Inl e, w)"

definition bind :: "('db, 'a) action \<Rightarrow> ('a \<Rightarrow> ('db, 'b) action) \<Rightarrow> ('db, 'b) action" where
  "bind m f w = (case m w of (Inl e, w') \<Rightarrow> (Inl e, w') | (Inr x, w') \<Rightarrow> f x w')"

text \<open>A function that cannot throw, as an action.\<close>

definition run :: "('db World \<Rightarrow> 'db World) \<Rightarrow> ('db, unit) action" where
  "run f w = (Inr (), f w)"

subsection \<open>Parameter access\<close>

text \<open>
  \<^verbatim>\<open>GetParameter(id, var)\<close> goes to \<^verbatim>\<open>wallet::getTxParameter\<close> of wallet\_db.h, which
  leaves \<open>var\<close> as it is when the store has no row and returns false; \<open>get_or\<close> is the
  value of \<open>var\<close> afterwards. \<^verbatim>\<open>GetMandatoryParameter\<close> returns the value or throws
  \<open>e_missing\<close>.
\<close>

definition get_or :: "'a \<Rightarrow> (TxParams \<Rightarrow> 'a option) \<Rightarrow> 'db World \<Rightarrow> 'a" where
  "get_or d p w = (case p (bag w) of None \<Rightarrow> d | Some v \<Rightarrow> v)"

definition GetMandatoryParameter ::
  "'db Env \<Rightarrow> (TxParams \<Rightarrow> 'a option) \<Rightarrow> ('db, 'a) action" where
  "GetMandatoryParameter env p w =
     (case p (bag w) of None \<Rightarrow> (Inl (e_missing env), w) | Some v \<Rightarrow> (Inr v, w))"

text \<open>
  Modelled from the spec: \<^verbatim>\<open>SetParameter\<close> and \<^verbatim>\<open>SetState\<close> of wallet\_transaction.h
  and the store's \<^verbatim>\<open>setTxParameter\<close> are not among the sources. By the specification the
  bag is a mapping from parameter ids to blobs with \<open>get\<close> and \<open>set\<close>, and the state
  is persisted under the parameter \<^verbatim>\<open>State\<close>: a set stores the value. The notification
  flag concerns the observers of the store only and is left out.
\<close>

definition SetParameter :: "(TxParams \<Rightarrow> TxParams) \<Rightarrow> 'db World \<Rightarrow> 'db World" where
  "SetParameter upd w = w\<lparr>bag := upd (bag w)\<rparr>"

definition SetState :: "State \<Rightarrow> 'db World \<Rightarrow> 'db World" where
  "SetState s w = SetParameter (p_State_update (\<lambda>_. Some s)) w"

definition GetState :: "'db World \<Rightarrow> State" where
  "GetState w = get_or Initial p_State w"

definition gateway_call :: "GatewayCall \<Rightarrow> 'db World \<Rightarrow> 'db World" where
  "gateway_call c w = w\<lparr>gateway := gateway w @ [c]\<rparr>"

subsection \<open>BaseTransaction\<close>

definition s_ProtoVersion :: "32 word" where
  "s_ProtoVersion = 1"

definition IsInitiator :: "'db Env \<Rightarrow> ('db, bool) action" where
  "IsInitiator env w =
     (case m_IsInitiator w of
        Some b \<Rightarrow> (Inr b, w)
      | None \<Rightarrow> bind (GetMandatoryParameter env p_IsInitiator)
                 (\<lambda>b w'. (Inr b, w'\<lparr>m_IsInitiator := Some b\<rparr>)) w)"

definition get_PeerVersion :: "'db World \<Rightarrow> 32 word" where
  "get_PeerVersion w = get_or 0 p_PeerProtoVersion w"

definition UpdateTxDescription :: "'db Env \<Rightarrow> TxStatus \<Rightarrow> 'db World \<Rightarrow> 'db World" where
  "UpdateTxDescription env s w =
     SetParameter (p_ModifyTime_update (\<lambda>_. Some (e_now env)))
       (SetParameter (p_Status_update (\<lambda>_. Some s)) w)"

text \<open>
  \<^verbatim>\<open>SendTxParameters\<close>: the message is sent when both \<^verbatim>\<open>MyID\<close> and \<^verbatim>\<open>PeerID\<close> are
  in the bag; the result tells whether it was.
\<close>

definition SendTxParameters :: "'db Env \<Rightarrow> MsgParam list \<Rightarrow> 'db World \<Rightarrow> bool \<times> 'db World" where
  "SendTxParameters env params w =
     (case p_MyID (bag w) of
        None \<Rightarrow> (False, w)
      | Some myID \<Rightarrow>
          (case p_PeerID (bag w) of
             None \<Rightarrow> (False, w)
           | Some peerID \<Rightarrow>
               (True, gateway_call
                        (send_tx_params peerID
                           \<lparr>msg_From = myID, msg_TxID = e_TxID env, msg_Type = Simple,
                            msg_Parameters = params\<rparr>) w)))"

definition NotifyFailure :: "'db Env \<Rightarrow> TxFailureReason \<Rightarrow> 'db World \<Rightarrow> 'db World" where
  "NotifyFailure env reason w =
     (let s = get_or Failed p_Status w
      in if s = Pending \<or> s = InProgress
         then snd (SendTxParameters env [P_FailureReason reason] w)
         else w)"

definition RollbackTx :: "'db Env \<Rightarrow> 'db World \<Rightarrow> 'db World" where
  "RollbackTx env w = w\<lparr>db := db_rollbackTx env (e_TxID env) (db w)\<rparr>"

definition OnFailed :: "'db Env \<Rightarrow> TxFailureReason \<Rightarrow> bool \<Rightarrow> 'db World \<Rightarrow> 'db World" where
  "OnFailed env reason notify w =
     (let w1 = (if notify then NotifyFailure env reason w else w);
          w2 = UpdateTxDescription env (if reason = ReasonCancelled then Cancelled else Failed) w1;
          w3 = RollbackTx env w2
      in gateway_call (on_tx_completed (e_TxID env)) w3)"

text \<open>
  Modelled from the spec: the declaration of \<^verbatim>\<open>OnFailed\<close> with the default value of its
  \<open>notify\<close> argument is in wallet\_transaction.h, which is not among the sources. The
  specification says of the one-argument call in \<^verbatim>\<open>CheckExternalFailures\<close>: "fail
  locally with that reason and do not notify the peer".
\<close>

definition OnFailed_notify_default :: bool where
  "OnFailed_notify_default = False"

definition Cancel :: "'db Env \<Rightarrow> 'db World \<Rightarrow> 'db World" where
  "Cancel env w =
     (let s = get_or Failed p_Status w
      in if s = Pending
         then (let (b, d) = db_deleteTx env (e_TxID env) (bag w, db w) in w\<lparr>bag := b, db := d\<rparr>)
         else gateway_call (on_tx_completed (e_TxID env))
                (RollbackTx env
                  (UpdateTxDescription env Cancelled
                    (NotifyFailure env ReasonCancelled w))))"

definition CheckExpired :: "'db Env \<Rightarrow> ('db, unit) action" where
  "CheckExpired env =
     bind (GetMandatoryParameter env p_Status) (\<lambda>s w.
       if s \<noteq> Completed then
         (let maxHeight = get_or (e_MaxHeight env) p_MaxHeight w
          in case e_tip env of
               None \<Rightarrow> (Inr (), w)
             | Some height \<Rightarrow>
                 if height > maxHeight
                 then (Inr (), OnFailed env TransactionExpired OnFailed_notify_default w)
                 else (Inr (), w))
       else (Inr (), w))"

definition CheckExternalFailures :: "'db Env \<Rightarrow> ('db, bool) action" where
  "CheckExternalFailures env w =
     (case p_FailureReason (bag w) of
        None \<Rightarrow> (Inr False, w)
      | Some reason \<Rightarrow>
          bind (GetMandatoryParameter env p_Status) (\<lambda>s w'.
            if s = InProgress
            then (Inr True, OnFailed env reason OnFailed_notify_default w')
            else (Inr False, w')) w)"

definition ConfirmKernel :: "'db Env \<Rightarrow> TxKernel \<Rightarrow> 'db World \<Rightarrow> 'db World" where
  "ConfirmKernel env krn w =
     gateway_call (confirm_kernel (e_TxID env) krn) (UpdateTxDescription env Registered w)"

definition CompleteTx :: "'db Env \<Rightarrow> 'db World \<Rightarrow> 'db World" where
  "CompleteTx env w =
     gateway_call (on_tx_completed (e_TxID env)) (UpdateTxDescription env Completed w)"

definition GetUnconfirmedOutputs :: "'db Env \<Rightarrow> 'db World \<Rightarrow> Coin list" where
  "GetUnconfirmedOutputs env w =
     filter (\<lambda>coin. (m_createTxId coin = Some (e_TxID env) \<and> m_status coin = Incoming)
                  \<or> (m_spentTxId coin = Some (e_TxID env) \<and> m_status coin = Outgoing))
            (db_visit env (db w))"

subsection \<open>TxBuilder\<close>

record TxBuilder =
  m_AmountList :: "Amount list"
  m_Fee :: Amount
  m_Change :: Amount
  m_MinHeight :: Height
  m_MaxHeight :: Height
  m_Inputs :: "Point list"
  m_Outputs :: "Output list"
  m_Offset :: Scalar
  m_BlindingExcess :: Scalar
  m_Kernel :: "TxKernel option"
  m_MultiSig_Nonce :: Scalar
  m_MultiSig_NoncePub :: Point
  m_PeerPublicExcess :: Point
  m_PeerPublicNonce :: Point
  m_PeerSignature :: Scalar
  m_PeerInputs :: "Point list"
  m_PeerOutputs :: "Output list"
  m_PeerOffset :: Scalar
  m_PartialSignature :: Scalar
  m_Message :: Hash

text \<open>
  The constructor sets the amounts, the fee, \<^verbatim>\<open>m_Change{0}\<close>, \<^verbatim>\<open>m_MinHeight{0}\<close> and
  \<^verbatim>\<open>m_MaxHeight{MaxHeight}\<close>; the other members are default-constructed (empty vectors, a
  null kernel pointer, zero scalars and points).
\<close>

definition TxBuilder_init :: "'db Env \<Rightarrow> Amount list \<Rightarrow> Amount \<Rightarrow> TxBuilder" where
  "TxBuilder_init env amountList fee =
     \<lparr>m_AmountList = amountList, m_Fee = fee, m_Change = 0, m_MinHeight = 0,
      m_MaxHeight = e_MaxHeight env, m_Inputs = [], m_Outputs = [],
      m_Offset = sc_zero (crypto env), m_BlindingExcess = sc_zero (crypto env),
      m_Kernel = None, m_MultiSig_Nonce = sc_zero (crypto env),
      m_MultiSig_NoncePub = pt_zero (crypto env),
      m_PeerPublicExcess = pt_zero (crypto env), m_PeerPublicNonce = pt_zero (crypto env),
      m_PeerSignature = sc_zero (crypto env), m_PeerInputs = [], m_PeerOutputs = [],
      m_PeerOffset = sc_zero (crypto env), m_PartialSignature = sc_zero (crypto env),
      m_Message = 0\<rparr>"

text \<open>\<^verbatim>\<open>std::accumulate(begin, end, 0ULL)\<close>: the sum wraps at 64 bits.\<close>

definition GetAmount :: "TxBuilder \<Rightarrow> Amount" where
  "GetAmount b = foldl (+) 0 (m_AmountList b)"

text \<open>
  The loop of \<^verbatim>\<open>SelectInputs\<close> over the selected coins: each coin gets
  \<^verbatim>\<open>m_spentTxId\<close>, its commitment becomes an input, its blinding factor goes into the
  offset and its value into the total.
\<close>

fun SelectInputs_loop ::
  "'db Env \<Rightarrow> Coin list \<Rightarrow> Point list \<times> Scalar \<times> Amount
     \<Rightarrow> Coin list \<times> Point list \<times> Scalar \<times> Amount" where
  "SelectInputs_loop env [] acc = ([], acc)"
| "SelectInputs_loop env (coin # rest) (inputs, offset, totalValue) =
     (let coin' = coin\<lparr>m_spentTxId := Some (e_TxID env)\<rparr>;
          (blindingFactor, commitment) = calcCommitment (crypto env) (m_ID coin');
          (rest', acc') = SelectInputs_loop env rest
                            (inputs @ [commitment], sc_add (crypto env) offset blindingFactor,
                             totalValue + m_Value (m_ID coin'))
      in (coin' # rest', acc'))"

definition SelectInputs :: "'db Env \<Rightarrow> TxBuilder \<Rightarrow> ('db, TxBuilder) action" where
  "SelectInputs env b w =
     (let amountWithFee = GetAmount b + m_Fee b;
          (coins, d) = db_selectCoins env amountWithFee True (db w);
          w1 = w\<lparr>db := d\<rparr>
      in if coins = [] then
           bind (IsInitiator env)
             (\<lambda>isInitiator. throw (TransactionFailedException (\<not> isInitiator) NoInputs)) w1
         else
           (let (coins', inputs, offset, totalValue) =
                  SelectInputs_loop env coins (m_Inputs b, m_Offset b, 0);
                b' = b\<lparr>m_Inputs := inputs, m_Offset := offset,
                       m_Change := m_Change b + (totalValue - amountWithFee)\<rparr>;
                w2 = SetParameter (p_Change_update (\<lambda>_. Some (m_Change b'))) w1;
                w3 = SetParameter (p_Inputs_update (\<lambda>_. Some (m_Inputs b'))) w2;
                w4 = SetParameter (p_Offset_update (\<lambda>_. Some (m_Offset b'))) w3
            in (Inr b', w4\<lparr>db := db_save env coins' (db w4)\<rparr>)))"

text \<open>
  \<^verbatim>\<open>Coin newUtxo{amount, Coin::Incoming}\<close>: the constructor is declared in wallet\_db.h
  with the default arguments maturity, confirm height and locked height \<^verbatim>\<open>MaxHeight\<close> and
  key type \<^verbatim>\<open>Regular\<close>; its body is not among the sources. The model lets it store its
  arguments and start with create height 0, no transaction ids and the empty session.
\<close>

definition Coin_new :: "'db Env \<Rightarrow> Amount \<Rightarrow> Coin_Status \<Rightarrow> Coin" where
  "Coin_new env amount status =
     \<lparr>m_ID = \<lparr>m_Idx = 0, m_Type = Regular, m_SubIdx = 0, m_Value = amount\<rparr>,
      m_status = status, m_createHeight = 0, m_maturity = e_MaxHeight env,
      m_confirmHeight = e_MaxHeight env, m_lockedHeight = e_MaxHeight env,
      m_createTxId = None, m_spentTxId = None, m_sessionId = 0\<rparr>"

definition CreateOutput ::
  "'db Env \<Rightarrow> Amount \<Rightarrow> bool \<Rightarrow> TxBuilder \<Rightarrow> 'db World \<Rightarrow> Output \<times> TxBuilder \<times> 'db World" where
  "CreateOutput env amount bChange b w =
     (let newUtxo = (Coin_new env amount Incoming)
                      \<lparr>m_createTxId := Some (e_TxID env), m_createHeight := m_MinHeight b\<rparr>;
          newUtxo1 = (if bChange then newUtxo\<lparr>m_ID := (m_ID newUtxo)\<lparr>m_Type := Change\<rparr>\<rparr>
                      else newUtxo);
          (stored, d) = db_store env newUtxo1 (db w);
          (blindingFactor, output) = Output_Create (crypto env) (m_ID stored)
      in (output,
          b\<lparr>m_Offset := sc_add (crypto env) (m_Offset b) (sc_neg (crypto env) blindingFactor)\<rparr>,
          w\<lparr>db := d\<rparr>))"

definition AddOutput ::
  "'db Env \<Rightarrow> Amount \<Rightarrow> bool \<Rightarrow> TxBuilder \<times> 'db World \<Rightarrow> TxBuilder \<times> 'db World" where
  "AddOutput env amount bChange bw =
     (let (output, b', w') = CreateOutput env amount bChange (fst bw) (snd bw)
      in (b'\<lparr>m_Outputs := m_Outputs b' @ [output]\<rparr>, w'))"

definition AddChangeOutput :: "'db Env \<Rightarrow> TxBuilder \<times> 'db World \<Rightarrow> TxBuilder \<times> 'db World" where
  "AddChangeOutput env bw =
     (if m_Change (fst bw) = 0 then bw else AddOutput env (m_Change (fst bw)) True bw)"

definition FinalizeOutputs :: "TxBuilder \<Rightarrow> 'db World \<Rightarrow> 'db World" where
  "FinalizeOutputs b w =
     SetParameter (p_Offset_update (\<lambda>_. Some (m_Offset b)))
       (SetParameter (p_Outputs_update (\<lambda>_. Some (m_Outputs b))) w)"

text \<open>
  \<^verbatim>\<open>StoreKernelID\<close>, \<^verbatim>\<open>GetKernel\<close> and \<^verbatim>\<open>CreateTransaction\<close> dereference
  \<^verbatim>\<open>m_Kernel\<close> after asserting that it is not null; \<^verbatim>\<open>UpdateImpl\<close> calls them after
  \<^verbatim>\<open>CreateKernel\<close> only. The branch for a null kernel is never taken there and does
  nothing in the model.
\<close>

definition StoreKernelID :: "'db Env \<Rightarrow> TxBuilder \<Rightarrow> 'db World \<Rightarrow> 'db World" where
  "StoreKernelID env b w =
     (case m_Kernel b of
        None \<Rightarrow> w
      | Some k \<Rightarrow> SetParameter (p_KernelID_update (\<lambda>_. Some (Kernel_get_ID (crypto env) k))) w)"

definition CreateKernel :: "'db Env \<Rightarrow> TxBuilder \<Rightarrow> 'db World \<Rightarrow> TxBuilder \<times> 'db World" where
  "CreateKernel env b w =
     (let b1 = b\<lparr>m_Kernel := Some \<lparr>k_Fee = m_Fee b, k_Height_Min = m_MinHeight b,
                                   k_Height_Max = m_MaxHeight b,
                                   k_Commitment = pt_zero (crypto env),
                                   k_Signature_NoncePub = pt_zero (crypto env),
                                   k_Signature_k = sc_zero (crypto env)\<rparr>\<rparr>;
          (b2, w2) =
            (case p_BlindingExcess (bag w) of
               Some x \<Rightarrow> (b1\<lparr>m_BlindingExcess := x\<rparr>, w)
             | None \<Rightarrow>
                 (let (idx, d) = db_AllocateKidRange env 1 (db w);
                      x = DeriveKey (crypto env) \<lparr>kid_Idx = idx, kid_Type = KerW, kid_SubIdx = 0\<rparr>
                  in (b1\<lparr>m_BlindingExcess := x\<rparr>,
                      SetParameter (p_BlindingExcess_update (\<lambda>_. Some x)) (w\<lparr>db := d\<rparr>))));
          b3 = b2\<lparr>m_Offset := sc_add (crypto env) (m_Offset b2) (m_BlindingExcess b2),
                  m_BlindingExcess := sc_neg (crypto env) (m_BlindingExcess b2)\<rparr>;
          (hvRandom, w3) =
            (case p_MyNonce (bag w2) of
               Some r \<Rightarrow> (r, w2)
             | None \<Rightarrow> (e_random env,
                         SetParameter (p_MyNonce_update (\<lambda>_. Some (e_random env))) w2))
      in (b3\<lparr>m_MultiSig_Nonce := DeriveNonce (crypto env) hvRandom\<rparr>, w3))"

definition GetPublicExcess :: "'db Env \<Rightarrow> TxBuilder \<Rightarrow> Point" where
  "GetPublicExcess env b = G_mul (crypto env) (m_BlindingExcess b)"

definition GetPublicNonce :: "'db Env \<Rightarrow> TxBuilder \<Rightarrow> Point" where
  "GetPublicNonce env b = G_mul (crypto env) (m_MultiSig_Nonce b)"

definition GetPeerPublicExcessAndNonce :: "TxBuilder \<Rightarrow> 'db World \<Rightarrow> bool \<times> TxBuilder" where
  "GetPeerPublicExcessAndNonce b w =
     (case p_PeerPublicExcess (bag w) of
        None \<Rightarrow> (False, b)
      | Some e \<Rightarrow>
          (case p_PeerPublicNonce (bag w) of
             None \<Rightarrow> (False, b\<lparr>m_PeerPublicExcess := e\<rparr>)
           | Some n \<Rightarrow> (True, b\<lparr>m_PeerPublicExcess := e, m_PeerPublicNonce := n\<rparr>)))"

definition GetPeerSignature :: "TxBuilder \<Rightarrow> 'db World \<Rightarrow> bool \<times> TxBuilder" where
  "GetPeerSignature b w =
     (case p_PeerSignature (bag w) of
        None \<Rightarrow> (False, b)
      | Some s \<Rightarrow> (True, b\<lparr>m_PeerSignature := s\<rparr>))"

definition GetInitialTxParams :: "TxBuilder \<Rightarrow> 'db World \<Rightarrow> bool \<times> TxBuilder" where
  "GetInitialTxParams b w =
     (let b1 = b\<lparr>m_Inputs := get_or (m_Inputs b) p_Inputs w,
                 m_Outputs := get_or (m_Outputs b) p_Outputs w,
                 m_MinHeight := get_or (m_MinHeight b) p_MinHeight w,
                 m_MaxHeight := get_or (m_MaxHeight b) p_MaxHeight w\<rparr>
      in case p_BlindingExcess (bag w) of
           None \<Rightarrow> (False, b1)
         | Some x \<Rightarrow>
             (case p_Offset (bag w) of
                None \<Rightarrow> (False, b1\<lparr>m_BlindingExcess := x\<rparr>)
              | Some off \<Rightarrow> (True, b1\<lparr>m_BlindingExcess := x, m_Offset := off\<rparr>)))"

definition GetPeerInputsAndOutputs :: "TxBuilder \<Rightarrow> 'db World \<Rightarrow> bool \<times> TxBuilder" where
  "GetPeerInputsAndOutputs b w =
     (let hasInputs = (p_PeerInputs (bag w) \<noteq> None);
          b1 = b\<lparr>m_PeerInputs := get_or (m_PeerInputs b) p_PeerInputs w\<rparr>;
          (hasOutputs, b2) =
            (case p_PeerOutputs (bag w) of
               None \<Rightarrow> (False, b1)
             | Some outs \<Rightarrow>
                 (case p_PeerOffset (bag w) of
                    None \<Rightarrow> (False, b1\<lparr>m_PeerOutputs := outs\<rparr>)
                  | Some off \<Rightarrow> (True, b1\<lparr>m_PeerOutputs := outs, m_PeerOffset := off\<rparr>)))
      in (hasInputs \<or> hasOutputs, b2))"

definition SignPartial :: "'db Env \<Rightarrow> TxBuilder \<Rightarrow> 'db World \<Rightarrow> TxBuilder \<times> 'db World" where
  "SignPartial env b w =
     (case m_Kernel b of
        None \<Rightarrow> (b, w)
      | Some k \<Rightarrow>
          (let totalPublicExcess = pt_add (crypto env) (GetPublicExcess env b) (m_PeerPublicExcess b);
               k' = k\<lparr>k_Commitment := totalPublicExcess\<rparr>;
               b1 = b\<lparr>m_Kernel := Some k', m_Message := Kernel_get_Hash (crypto env) k'\<rparr>;
               b2 = b1\<lparr>m_MultiSig_NoncePub :=
                         pt_add (crypto env) (GetPublicNonce env b1) (m_PeerPublicNonce b1)\<rparr>;
               b3 = b2\<lparr>m_PartialSignature :=
                         MultiSig_SignPartial (crypto env) (m_MultiSig_Nonce b2)
                           (m_MultiSig_NoncePub b2) (m_Message b2) (m_BlindingExcess b2)\<rparr>
           in (b3, StoreKernelID env b3 w)))"

definition FinalizeSignature :: "'db Env \<Rightarrow> TxBuilder \<Rightarrow> 'db World \<Rightarrow> TxBuilder \<times> 'db World" where
  "FinalizeSignature env b w =
     (case m_Kernel b of
        None \<Rightarrow> (b, w)
      | Some k \<Rightarrow>
          (let k' = k\<lparr>k_Signature_NoncePub :=
                        pt_add (crypto env) (GetPublicNonce env b) (m_PeerPublicNonce b),
                      k_Signature_k :=
                        sc_add (crypto env) (m_PartialSignature b) (m_PeerSignature b)\<rparr>;
               b1 = b\<lparr>m_Kernel := Some k'\<rparr>
           in (b1, StoreKernelID env b1 w)))"

text \<open>
  \<^verbatim>\<open>CreateTransaction\<close> moves the kernel, the inputs and the outputs out of the builder;
  the builder is not used afterwards, so only the transaction is returned.
\<close>

definition CreateTransaction :: "'db Env \<Rightarrow> TxBuilder \<Rightarrow> Transaction" where
  "CreateTransaction env b =
     Transaction_Normalize (crypto env)
       \<lparr>t_vKernels = (case m_Kernel b of None \<Rightarrow> [] | Some k \<Rightarrow> [k]),
        t_Offset = sc_add (crypto env) (m_Offset b) (m_PeerOffset b),
        t_vInputs = m_Inputs b @ m_PeerInputs b,
        t_vOutputs = m_Outputs b @ m_PeerOutputs b\<rparr>"

definition IsPeerSignatureValid :: "'db Env \<Rightarrow> TxBuilder \<Rightarrow> bool" where
  "IsPeerSignatureValid env b =
     Signature_IsValidPartial (crypto env) (m_MultiSig_NoncePub b) (m_PeerSignature b)
       (m_Message b) (m_PeerPublicNonce b) (m_PeerPublicExcess b)"

subsection \<open>SimpleTransaction\<close>

definition lift :: "('db World \<Rightarrow> 'a \<times> 'db World) \<Rightarrow> ('db, 'a) action" where
  "lift f w = (case f w of (x, w') \<Rightarrow> (Inr x, w'))"

text \<open>
  \<^verbatim>\<open>UpdateImpl\<close> is one long function with many \<^verbatim>\<open>return\<close> statements. The model
  cuts it into consecutive steps; a step either returns from \<^verbatim>\<open>UpdateImpl\<close>
  (\<open>Return\<close>) or hands its local variables to the next step (\<open>Next\<close>). The asserts of
  the source are not evaluated (release build).
\<close>

datatype 'a flow = Return | Next 'a

definition and_then ::
  "('db, 'a flow) action \<Rightarrow> ('a \<Rightarrow> ('db, 'b flow) action) \<Rightarrow> ('db, 'b flow) action" where
  "and_then m f w =
     (case m w of
        (Inl e, w') \<Rightarrow> (Inl e, w')
      | (Inr Return, w') \<Rightarrow> (Inr Return, w')
      | (Inr (Next x), w') \<Rightarrow> f x w')"

definition IsSelfTx :: "'db Env \<Rightarrow> ('db, bool) action" where
  "IsSelfTx env =
     bind (GetMandatoryParameter env p_PeerID) (\<lambda>peerID.
       ret (case db_getAddress env peerID of
              None \<Rightarrow> False
            | Some address \<Rightarrow> m_OwnID address \<noteq> 0))"

definition utxo_params :: "TxBuilder \<Rightarrow> MsgParam list" where
  "utxo_params b = [P_PeerInputs (m_Inputs b), P_PeerOutputs (m_Outputs b), P_PeerOffset (m_Offset b)]"

definition SendInvitation :: "'db Env \<Rightarrow> TxBuilder \<Rightarrow> bool \<Rightarrow> 'db World \<Rightarrow> 'db World" where
  "SendInvitation env b isSender w =
     (let (sent, w1) = SendTxParameters env
                         [P_Amount (GetAmount b), P_Fee (m_Fee b), P_MinHeight (m_MinHeight b),
                          P_MaxHeight (m_MaxHeight b), P_IsSender (\<not> isSender),
                          P_PeerProtoVersion s_ProtoVersion,
                          P_PeerPublicExcess (GetPublicExcess env b),
                          P_PeerPublicNonce (GetPublicNonce env b)] w
      in if \<not> sent then OnFailed env FailedToSendParameters False w1 else w1)"

text \<open>
  The payment confirmation the receiver adds in \<^verbatim>\<open>ConfirmInvitation\<close>: present when the
  four parameters are in the bag and the own address has an own id.
\<close>

definition sign_payment :: "'db Env \<Rightarrow> 'db World \<Rightarrow> MsgParam list" where
  "sign_payment env w =
     (case (p_PeerID (bag w), p_MyID (bag w), p_KernelID (bag w), p_Amount (bag w)) of
        (Some widPeer, Some widMy, Some kernelID, Some amount) \<Rightarrow>
          (case db_getAddress env widMy of
             None \<Rightarrow> []
           | Some waddr \<Rightarrow>
               if m_OwnID waddr \<noteq> 0 then
                 (let sk = DeriveKey (crypto env)
                             \<lparr>kid_Idx = m_OwnID waddr, kid_Type = Bbs, kid_SubIdx = 0\<rparr>;
                      (pk, sk') = Sk2Pk (crypto env) sk
                  in [P_PaymentConfirmation
                        (PaymentConfirmation_Sign (crypto env)
                           \<lparr>pc_KernelID = kernelID, pc_Value = amount, pc_Sender = m_Pk widPeer,
                            pc_Signature = 0\<rparr> sk')])
               else [])
      | _ \<Rightarrow> [])"

definition ConfirmInvitation :: "'db Env \<Rightarrow> TxBuilder \<Rightarrow> bool \<Rightarrow> ('db, unit) action" where
  "ConfirmInvitation env b sendUtxos =
     bind (GetMandatoryParameter env p_IsSender) (\<lambda>isSender.
       run (\<lambda>w. snd (SendTxParameters env
                       ([P_PeerProtoVersion s_ProtoVersion,
                         P_PeerPublicExcess (GetPublicExcess env b),
                         P_PeerSignature (m_PartialSignature b),
                         P_PeerPublicNonce (GetPublicNonce env b)]
                        @ (if sendUtxos then utxo_params b else [])
                        @ (if \<not> isSender then sign_payment env w else [])) w)))"

definition ConfirmTransaction :: "'db Env \<Rightarrow> TxBuilder \<Rightarrow> bool \<Rightarrow> 'db World \<Rightarrow> 'db World" where
  "ConfirmTransaction env b sendUtxos w =
     (case p_PeerProtoVersion (bag w) of
        Some nVer \<Rightarrow> w
      | None \<Rightarrow> snd (SendTxParameters env
                       (P_PeerSignature (m_PartialSignature b)
                        # (if sendUtxos then utxo_params b else [])) w))"

definition NotifyTransactionRegistered :: "'db Env \<Rightarrow> 'db World \<Rightarrow> 'db World" where
  "NotifyTransactionRegistered env w = snd (SendTxParameters env [P_TransactionRegistered True] w)"

text \<open>Lines 306 to 326: the first pass of a transaction in state \<^verbatim>\<open>Initial\<close>.\<close>

definition CreateInitialParams ::
  "'db Env \<Rightarrow> bool \<Rightarrow> bool \<Rightarrow> TxBuilder \<Rightarrow> ('db, TxBuilder) action" where
  "CreateInitialParams env isSender isSelfTx b =
     bind (if isSender
           then bind (SelectInputs env b) (\<lambda>b1. lift (\<lambda>w. AddChangeOutput env (b1, w)))
           else ret b) (\<lambda>b2.
     lift (\<lambda>w.
       (let (b3, w3) = (if isSelfTx \<or> \<not> isSender
                        then foldl (\<lambda>bw amount. AddOutput env amount False bw) (b2, w)
                               (m_AmountList b2)
                        else (b2, w))
        in (b3, UpdateTxDescription env InProgress (FinalizeOutputs b3 w3)))))"

text \<open>Lines 329 to 339.\<close>

definition SetMyAddressID :: "'db Env \<Rightarrow> 'db World \<Rightarrow> 'db World" where
  "SetMyAddressID env w =
     (case p_MyAddressID (bag w) of
        Some nAddrOwnID \<Rightarrow> w
      | None \<Rightarrow>
          (case p_MyID (bag w) of
             None \<Rightarrow> w
           | Some wid \<Rightarrow>
               (case db_getAddress env wid of
                  None \<Rightarrow> w
                | Some waddr \<Rightarrow>
                    if m_OwnID waddr \<noteq> 0
                    then SetParameter (p_MyAddressID_update (\<lambda>_. Some (m_OwnID waddr))) w
                    else w)))"

text \<open>The local variables of \<^verbatim>\<open>UpdateImpl\<close> that live across its steps.\<close>

record Locals =
  isSender :: bool
  isSelfTx :: bool
  txState :: State
  builder :: TxBuilder
  hasPeersInputsAndOutputs :: bool

text \<open>Lines 291 to 341: read the parameters, build the builder, create the kernel.\<close>

definition UpdateImpl_setup :: "'db Env \<Rightarrow> ('db, Locals flow) action" where
  "UpdateImpl_setup env =
     bind (GetMandatoryParameter env p_IsSender) (\<lambda>isSender'.
     bind (IsSelfTx env) (\<lambda>isSelfTx'.
     bind (\<lambda>w. (Inr (GetState w), w)) (\<lambda>txState'.
     bind (\<lambda>w. case p_AmountList (bag w) of
                  Some l \<Rightarrow> (Inr l, w)
                | None \<Rightarrow> bind (GetMandatoryParameter env p_Amount) (\<lambda>a. ret [a]) w) (\<lambda>amoutList.
     bind (GetMandatoryParameter env p_Fee) (\<lambda>fee.
     bind (\<lambda>w. (Inr (GetInitialTxParams (TxBuilder_init env amoutList fee) w), w)) (\<lambda>(has, b).
     bind (if \<not> has \<and> txState' = Initial
           then CreateInitialParams env isSender' isSelfTx' b
           else ret b) (\<lambda>b1.
     bind (run (SetMyAddressID env)) (\<lambda>_.
     bind (lift (CreateKernel env b1)) (\<lambda>b2.
     ret (Next \<lparr>isSender = isSender', isSelfTx = isSelfTx', txState = txState',
                builder = b2, hasPeersInputsAndOutputs = False\<rparr>))))))))))"

text \<open>Lines 343 to 352: without the peer's public excess and nonce, invite and return.\<close>

definition UpdateImpl_invite :: "'db Env \<Rightarrow> Locals \<Rightarrow> ('db, Locals flow) action" where
  "UpdateImpl_invite env l w =
     (if isSelfTx l then (Inr (Next l), w)
      else
        (let (has, b) = GetPeerPublicExcessAndNonce (builder l) w
         in if \<not> has then
              (if txState l = Initial
               then (Inr Return, SetState Invitation (SendInvitation env b (isSender l) w))
               else (Inr Return, w))
            else (Inr (Next (l\<lparr>builder := b\<rparr>)), w)))"

text \<open>Lines 354 to 386: sign; without the peer's signature, confirm the invitation or wait.\<close>

definition AcceptInvitation :: "'db Env \<Rightarrow> TxBuilder \<Rightarrow> bool \<Rightarrow> ('db, unit) action" where
  "AcceptInvitation env b hasPeers =
     bind (run (UpdateTxDescription env Registered)) (\<lambda>_.
     bind (ConfirmInvitation env b (\<not> hasPeers)) (\<lambda>_.
     run (\<lambda>w. case p_PeerProtoVersion (bag w) of
                 Some nVer \<Rightarrow>
                   (let w1 = SetState KernelConfirmation
                               (SetParameter (p_TransactionRegistered_update (\<lambda>_. Some True)) w)
                    in case m_Kernel b of None \<Rightarrow> w1 | Some k \<Rightarrow> ConfirmKernel env k w1)
               | None \<Rightarrow> SetState InvitationConfirmation w)))"

definition UpdateImpl_sign :: "'db Env \<Rightarrow> Locals \<Rightarrow> ('db, Locals flow) action" where
  "UpdateImpl_sign env l w =
     (let (b1, w1) = SignPartial env (builder l) w;
          (hasPeers, b2) = GetPeerInputsAndOutputs b1 w1;
          l2 = l\<lparr>builder := b2, hasPeersInputsAndOutputs := hasPeers\<rparr>
      in if isSelfTx l then (Inr (Next l2), w1)
         else
           (let (hasSig, b3) = GetPeerSignature b2 w1;
                l3 = l2\<lparr>builder := b3\<rparr>
            in if hasSig then (Inr (Next l3), w1)
               else if txState l = Initial
                 then bind (AcceptInvitation env b3 hasPeers) (\<lambda>_. ret Return) w1
                 else bind (IsInitiator env)
                        (\<lambda>isInitiator. ret (if isInitiator then Return else Next l3)) w1))"

text \<open>
  Lines 388 to 423: check the peer's signature and the payment confirmation, finalize the
  signature. After the \<^verbatim>\<open>OnFailed\<close> of line 416 the source does not return.
\<close>

definition payment_confirmed :: "'db Env \<Rightarrow> 'db World \<Rightarrow> bool" where
  "payment_confirmed env w =
     (case (p_PeerID (bag w), p_MyID (bag w), p_KernelID (bag w), p_Amount (bag w),
            p_PaymentConfirmation (bag w)) of
        (Some widPeer, Some widMy, Some kernelID, Some amount, Some signature) \<Rightarrow>
          PaymentConfirmation_IsValid (crypto env)
            \<lparr>pc_KernelID = kernelID, pc_Value = amount, pc_Sender = m_Pk widMy,
             pc_Signature = signature\<rparr> (m_Pk widPeer)
      | _ \<Rightarrow> False)"

definition VerifyPayment :: "'db Env \<Rightarrow> 'db World \<Rightarrow> 'db World" where
  "VerifyPayment env w =
     (if \<not> payment_confirmed env w \<and> get_PeerVersion w \<ge> s_ProtoVersion
      then OnFailed env InvalidPeerSignature OnFailed_notify_default w
      else w)"

definition UpdateImpl_validate :: "'db Env \<Rightarrow> Locals \<Rightarrow> ('db, Locals flow) action" where
  "UpdateImpl_validate env l =
     bind (IsInitiator env) (\<lambda>isInitiator w.
       if isInitiator \<and> \<not> IsPeerSignatureValid env (builder l)
       then (Inr Return, OnFailed env InvalidPeerSignature True w)
       else
         (let w1 = (if \<not> isSelfTx l \<and> isSender l \<and> isInitiator
                    then VerifyPayment env w else w);
              (b1, w2) = FinalizeSignature env (builder l) w1
          in (Inr (Next (l\<lparr>builder := b1\<rparr>)), w2)))"

text \<open>Lines 425 to 461: register the transaction, or fail if registration failed.\<close>

definition RegisterTx :: "'db Env \<Rightarrow> Locals \<Rightarrow> 'db World \<Rightarrow> 'db World" where
  "RegisterTx env l w =
     (let transaction = CreateTransaction env (builder l)
      in if \<not> Transaction_IsValid (crypto env) transaction
         then OnFailed env InvalidTransaction True w
         else SetState Registration (gateway_call (register_tx (e_TxID env) transaction) w))"

definition UpdateImpl_register :: "'db Env \<Rightarrow> Locals \<Rightarrow> ('db, Locals flow) action" where
  "UpdateImpl_register env l w =
     (case p_TransactionRegistered (bag w) of
        None \<Rightarrow>
          (if isSelfTx l then (Inr Return, RegisterTx env l w)
           else
             bind (if \<not> hasPeersInputsAndOutputs l then ret True else IsInitiator env)
               (\<lambda>exchange w1.
                  if exchange then
                    (let w2 = (if txState l = Invitation
                               then SetState PeerConfirmation
                                      (ConfirmTransaction env (builder l)
                                         (\<not> hasPeersInputsAndOutputs l)
                                         (UpdateTxDescription env Registered w1))
                               else w1)
                     in if \<not> hasPeersInputsAndOutputs l then (Inr Return, w2)
                        else (Inr Return, RegisterTx env l w2))
                  else (Inr Return, RegisterTx env l w1)) w)
      | Some isRegistered \<Rightarrow>
          if \<not> isRegistered then (Inr Return, OnFailed env FailedToRegister True w)
          else (Inr (Next l), w))"

text \<open>
  Lines 463 to 500: without a proof height, ask for the kernel proof; with one, confirm
  the coins of the transaction and complete it.
\<close>

definition confirm_coin :: "'db Env \<Rightarrow> Height \<Rightarrow> Coin \<Rightarrow> Coin" where
  "confirm_coin env hProof c =
     (if m_status c = Outgoing then c\<lparr>m_status := Spent\<rparr>
      else c\<lparr>m_status := Available, m_confirmHeight := hProof,
             m_maturity := hProof + e_Maturity_Std env\<rparr>)"

definition UpdateImpl_kernel_proof :: "'db Env \<Rightarrow> Locals \<Rightarrow> 'db World \<Rightarrow> 'db World" where
  "UpdateImpl_kernel_proof env l w =
     (let hProof = get_or 0 p_KernelProofHeight w
      in if hProof = 0 then
           (let w1 = (if txState l = Registration \<and> p_PeerProtoVersion (bag w) = None
                      then NotifyTransactionRegistered env w else w);
                w2 = SetState KernelConfirmation w1
            in case m_Kernel (builder l) of None \<Rightarrow> w2 | Some k \<Rightarrow> ConfirmKernel env k w2)
         else
           (let unconfirmed = map (confirm_coin env hProof) (GetUnconfirmedOutputs env w)
            in CompleteTx env (w\<lparr>db := db_save env unconfirmed (db w)\<rparr>)))"

text \<open>The steps of \<^verbatim>\<open>UpdateImpl\<close> before line 463, and the whole function.\<close>

definition UpdateImpl_negotiate :: "'db Env \<Rightarrow> ('db, Locals flow) action" where
  "UpdateImpl_negotiate env =
     and_then (and_then (and_then (and_then (UpdateImpl_setup env)
       (UpdateImpl_invite env)) (UpdateImpl_sign env)) (UpdateImpl_validate env))
       (UpdateImpl_register env)"

definition UpdateImpl :: "'db Env \<Rightarrow> ('db, unit) action" where
  "UpdateImpl env w =
     (case UpdateImpl_negotiate env w of
        (Inl e, w') \<Rightarrow> (Inl e, w')
      | (Inr Return, w') \<Rightarrow> (Inr (), w')
      | (Inr (Next l), w') \<Rightarrow> (Inr (), UpdateImpl_kernel_proof env l w'))"

text \<open>
  The payment-confirmation check of lines 394 to 421 fails when \<^verbatim>\<open>UpdateImpl\<close> gets
  as far as line 388, the party is the sending initiator of a transaction with a peer,
  the confirmation is missing or invalid and the peer's protocol version is at least
  \<^verbatim>\<open>s_ProtoVersion\<close>: exactly then line 416 calls \<^verbatim>\<open>OnFailed\<close>, after which the
  source goes on without returning. \<open>payment_check_fails\<close> runs the steps up to line
  386 and evaluates that condition.
\<close>

definition UpdateImpl_before_validate :: "'db Env \<Rightarrow> ('db, Locals flow) action" where
  "UpdateImpl_before_validate env =
     and_then (and_then (UpdateImpl_setup env) (UpdateImpl_invite env)) (UpdateImpl_sign env)"

definition payment_check_fails :: "'db Env \<Rightarrow> 'db World \<Rightarrow> bool" where
  "payment_check_fails env w =
     (case UpdateImpl_before_validate env w of
        (Inr (Next l), w') \<Rightarrow>
          (case IsInitiator env w' of
             (Inr isInitiator, w'') \<Rightarrow>
               \<not> isSelfTx l \<and> isSender l \<and> isInitiator
               \<and> \<not> payment_confirmed env w'' \<and> get_PeerVersion w'' \<ge> s_ProtoVersion
           | (Inl e, w'') \<Rightarrow> False)
      | (Inr Return, w') \<Rightarrow> False
      | (Inl e, w') \<Rightarrow> False)"

subsection \<open>Update\<close>

text \<open>The two \<^verbatim>\<open>catch\<close> clauses of \<^verbatim>\<open>BaseTransaction::Update\<close>; logging is left out.\<close>

fun Update_catch :: "'db Env \<Rightarrow> exn \<Rightarrow> 'db World \<Rightarrow> 'db World" where
  "Update_catch env (TransactionFailedException notify reason) w = OnFailed env reason notify w"
| "Update_catch env std_exception w = w"

definition Update_try :: "'db Env \<Rightarrow> ('db, unit) action" where
  "Update_try env =
     bind (CheckExternalFailures env) (\<lambda>failed.
       if failed then ret ()
       else bind (UpdateImpl env) (\<lambda>_. CheckExpired env))"

definition Update :: "'db Env \<Rightarrow> 'db World \<Rightarrow> 'db World" where
  "Update env w =
     (case Update_try env w of
        (Inl e, w') \<Rightarrow> Update_catch env e w'
      | (Inr u, w') \<Rightarrow> w')"

subsection \<open>A sample wallet\<close>

text \<open>
  Sample data for evaluating the model: a store that is a list of coins, a cryptographic
  library whose checks all succeed, and a transaction with id 42 between the own wallet
  \<open>demo_my\<close> and the peer \<open>demo_peer\<close>.
\<close>

definition empty_params :: TxParams where
  "empty_params =
     \<lparr>p_Amount = None, p_AmountList = None, p_Fee = None, p_MinHeight = None,
      p_MaxHeight = None, p_IsSender = None, p_IsInitiator = None, p_MyID = None,
      p_PeerID = None, p_MyAddressID = None, p_PeerProtoVersion = None, p_Status = None,
      p_State = None, p_Inputs = None, p_Outputs = None, p_Offset = None, p_Change = None,
      p_BlindingExcess = None, p_MyNonce = None, p_PeerPublicExcess = None,
      p_PeerPublicNonce = None, p_PeerSignature = None, p_PeerInputs = None,
      p_PeerOutputs = None, p_PeerOffset = None, p_PaymentConfirmation = None,
      p_KernelID = None, p_KernelProofHeight = None, p_TransactionRegistered = None,
      p_FailureReason = None, p_ModifyTime = None\<rparr>"

definition demo_crypto :: Crypto where
  "demo_crypto =
     \<lparr>sc_zero = 0, sc_add = (+), sc_neg = (\<lambda>x. x), pt_zero = 0, pt_add = (+),
      G_mul = (\<lambda>x. x),
      calcCommitment = (\<lambda>cid. (unat (m_Idx cid), unat (m_Value cid))),
      Output_Create = (\<lambda>cid. (unat (m_Idx cid), unat (m_Value cid))),
      DeriveKey = (\<lambda>kid. unat (kid_Idx kid)),
      DeriveNonce = (\<lambda>h. unat h),
      Kernel_get_Hash = (\<lambda>k. of_nat (k_Commitment k)),
      Kernel_get_ID = (\<lambda>k. of_nat (k_Commitment k) + 1),
      MultiSig_SignPartial = (\<lambda>nonce noncePub msg sk. nonce + sk),
      Signature_IsValidPartial = (\<lambda>noncePub k msg peerNonce peerExcess. True),
      PaymentConfirmation_IsValid = (\<lambda>pc pk. True),
      PaymentConfirmation_Sign = (\<lambda>pc sk. sk),
      Sk2Pk = (\<lambda>sk. (of_nat sk, sk)),
      Transaction_Normalize = (\<lambda>t. t),
      Transaction_IsValid = (\<lambda>t. True)\<rparr>"

definition demo_my :: WalletID where
  "demo_my = \<lparr>m_Channel = 1, m_Pk = 11\<rparr>"

definition demo_peer :: WalletID where
  "demo_peer = \<lparr>m_Channel = 2, m_Pk = 22\<rparr>"

definition demo_address :: WalletAddress where
  "demo_address = \<lparr>m_walletID = demo_my, m_label = ''me'', m_category = [],
                    m_createTime = 0, m_duration = 0, m_OwnID = 5\<rparr>"

text \<open>
  The sample store selects available coins in table order until their values reach the
  amount, and none if they never do; with \<open>lock\<close> it marks the selection
  \<^verbatim>\<open>Outgoing\<close>. \<open>save\<close> replaces the rows with the ids of the saved coins,
  \<open>store\<close> appends a row, \<open>rollbackTx\<close> removes the incoming coins a transaction
  created and frees the coins it spent.
\<close>

fun demo_pick :: "Amount \<Rightarrow> Coin list \<Rightarrow> Coin list option" where
  "demo_pick a [] = (if a = 0 then Some [] else None)"
| "demo_pick a (c # cs) =
     (if a = 0 then Some []
      else if m_status c \<noteq> Available then demo_pick a cs
      else if a \<le> m_Value (m_ID c) then Some [c]
      else map_option ((#) c) (demo_pick (a - m_Value (m_ID c)) cs))"

definition demo_save :: "Coin list \<Rightarrow> Coin list \<Rightarrow> Coin list" where
  "demo_save coins d =
     map (\<lambda>c. case find (\<lambda>n. m_ID n = m_ID c) coins of None \<Rightarrow> c | Some n \<Rightarrow> n) d"

definition demo_selectCoins :: "Amount \<Rightarrow> bool \<Rightarrow> Coin list \<Rightarrow> Coin list \<times> Coin list" where
  "demo_selectCoins a lock d =
     (case demo_pick a d of
        None \<Rightarrow> ([], d)
      | Some sel \<Rightarrow>
          if lock then (let locked = map (\<lambda>c. c\<lparr>m_status := Outgoing\<rparr>) sel
                        in (locked, demo_save locked d))
          else (sel, d))"

definition demo_rollbackTx :: "TxID \<Rightarrow> Coin list \<Rightarrow> Coin list" where
  "demo_rollbackTx txid d =
     map (\<lambda>c. if m_spentTxId c = Some txid \<and> m_status c = Outgoing
               then c\<lparr>m_status := Available, m_spentTxId := None\<rparr> else c)
         (filter (\<lambda>c. \<not> (m_createTxId c = Some txid \<and> m_status c = Incoming)) d)"

definition demo_env :: "Coin list Env" where
  "demo_env =
     \<lparr>e_TxID = 42, e_tip = Some 40, e_now = 1000, e_random = 77,
      e_MaxHeight = - 1, e_Maturity_Std = 60, e_missing = std_exception,
      crypto = demo_crypto,
      db_selectCoins = demo_selectCoins,
      db_store = (\<lambda>c d. (c\<lparr>m_ID := (m_ID c)\<lparr>m_Idx := of_nat (length d)\<rparr>\<rparr>,
                           d @ [c\<lparr>m_ID := (m_ID c)\<lparr>m_Idx := of_nat (length d)\<rparr>\<rparr>])),
      db_save = demo_save,
      db_visit = (\<lambda>d. d),
      db_rollbackTx = demo_rollbackTx,
      db_deleteTx = (\<lambda>txid bd. (empty_params, snd bd)),
      db_AllocateKidRange = (\<lambda>n d. (of_nat (length d), d)),
      db_getAddress = (\<lambda>wid. if wid = demo_my then Some demo_address else None)\<rparr>"

text \<open>The same environment when the tip has passed height 50.\<close>

definition demo_env_late :: "Coin list Env" where
  "demo_env_late = demo_env\<lparr>e_tip := Some 51\<rparr>"

definition demo_coin :: "64 word \<Rightarrow> Amount \<Rightarrow> Coin_Status \<Rightarrow> TxID option \<Rightarrow> TxID option \<Rightarrow> Coin" where
  "demo_coin idx v st created spent =
     \<lparr>m_ID = \<lparr>m_Idx = idx, m_Type = Regular, m_SubIdx = 0, m_Value = v\<rparr>,
      m_status = st, m_createHeight = 0, m_maturity = 10, m_confirmHeight = 5,
      m_lockedHeight = - 1, m_createTxId = created, m_spentTxId = spent, m_sessionId = 0\<rparr>"

text \<open>
  The bag of a sender that has invited the peer: amount 10, fee 1, heights 0 to 50, the
  kernel secrets stored, state \<^verbatim>\<open>Invitation\<close>, status \<^verbatim>\<open>InProgress\<close>.
\<close>

definition demo_invited :: TxParams where
  "demo_invited =
     empty_params\<lparr>p_Amount := Some 10, p_Fee := Some 1, p_MinHeight := Some 0,
                  p_MaxHeight := Some 50, p_IsSender := Some True, p_IsInitiator := Some True,
                  p_MyID := Some demo_my, p_PeerID := Some demo_peer,
                  p_MyAddressID := Some 5, p_Status := Some InProgress,
                  p_State := Some Invitation, p_Inputs := Some [4, 7], p_Outputs := Some [],
                  p_Offset := Some 3, p_Change := Some 0, p_BlindingExcess := Some 9,
                  p_MyNonce := Some 77\<rparr>"

text \<open>
  The same transaction later: the peer has answered, the transaction is registered and
  the kernel proof has arrived at height 100.
\<close>

definition demo_proved :: TxParams where
  "demo_proved =
     demo_invited\<lparr>p_PeerProtoVersion := Some 1, p_Status := Some Registered,
                  p_State := Some KernelConfirmation, p_PeerPublicExcess := Some 8,
                  p_PeerPublicNonce := Some 6, p_PeerSignature := Some 2,
                  p_PeerOutputs := Some [10], p_PeerOffset := Some 1,
                  p_PaymentConfirmation := Some 12, p_KernelID := Some 18,
                  p_KernelProofHeight := Some 100, p_TransactionRegistered := Some True\<rparr>"

text \<open>
  The coins of the sample store: two coins of value 4 and 7 that transaction 42 spends,
  a free coin of value 5, and an incoming coin of value 3 that transaction 42 created.
\<close>

definition demo_coins :: "Coin list" where
  "demo_coins =
     [demo_coin 1 4 Outgoing None (Some 42), demo_coin 2 5 Available None None,
      demo_coin 3 7 Outgoing None (Some 42), demo_coin 4 3 Incoming (Some 42) None]"

definition demo_world :: "TxParams \<Rightarrow> Coin list \<Rightarrow> Coin list World" where
  "demo_world b d = \<lparr>bag = b, db = d, gateway = [], m_IsInitiator = None\<rparr>"

text \<open>
  More sample data: the bag of a sender before its first update, a store too poor and a
  store rich enough for amount 10 and fee 1, the coins of \<open>demo_coins\<close> after the
  kernel proof at height 100, and the proved bag with a failed registration.
\<close>

definition demo_fresh :: TxParams where
  "demo_fresh = empty_params\<lparr>p_Amount := Some 10, p_Fee := Some 1, p_IsSender := Some True,
                             p_IsInitiator := Some True, p_MyID := Some demo_my,
                             p_PeerID := Some demo_peer, p_Status := Some Pending\<rparr>"

definition demo_poor :: "Coin list" where
  "demo_poor = [demo_coin 1 2 Available None None, demo_coin 2 3 Available None None]"

definition demo_rich :: "Coin list" where
  "demo_rich = [demo_coin 1 4 Available None None, demo_coin 2 5 Available None None,
                demo_coin 3 7 Available None None]"

definition demo_confirmed :: "Coin list" where
  "demo_confirmed =
     [demo_coin 1 4 Spent None (Some 42), demo_coin 2 5 Available None None,
      demo_coin 3 7 Spent None (Some 42),
      (demo_coin 4 3 Available (Some 42) None)\<lparr>m_confirmHeight := 100, m_maturity := 160\<rparr>]"

definition demo_unregistered :: TxParams where
  "demo_unregistered = demo_proved\<lparr>p_TransactionRegistered := Some False\<rparr>"

fun world_after :: "(exn + 'a) \<times> 'db World \<Rightarrow> 'db World" where
  "world_after (r, w) = w"

text \<open>The proof height in the bag of a world.\<close>

abbreviation kph :: "'db World \<Rightarrow> Height option" where
  "kph w \<equiv> p_KernelProofHeight (bag w)"




section \<open>Properties of the stratum server\<close>

subsection \<open>Access control\<close>

lemma read_keys_key_lines: "read_keys content = key_lines content"
  by (auto simp: read_keys_def key_lines_def)

lemma refresh_enabled: "acl_enabled (refresh fv a) = acl_enabled a"
  by (simp add: refresh_def split: FileView.splits)

lemma refresh_all_enabled: "acl_enabled (refresh_all fvs a) = acl_enabled a"
  by (induction fvs arbitrary: a) (simp_all add: refresh_enabled)

lemma refresh_keys:
  "acl_keys (refresh fv a) = (if reloads fv a then key_lines (content_of fv) else acl_keys a)"
  by (auto simp: refresh_def reloads_def read_keys_key_lines split: FileView.splits)

text \<open>
  The invariant of a run of refreshes: the key set is the set of key lines of the content
  seen by the last triggered refresh, and empty when none was triggered.
\<close>

lemma refresh_all_keys:
  "acl_keys a = (case r of None \<Rightarrow> {} | Some c \<Rightarrow> key_lines c) \<Longrightarrow>
   acl_keys (refresh_all fvs a) = (case last_reload fvs a r of None \<Rightarrow> {} | Some c \<Rightarrow> key_lines c)"
proof (induction fvs arbitrary: a r)
  case Nil
  then show ?case by simp
next
  case (Cons fv fvs)
  have "acl_keys (refresh fv a) =
        (case (if reloads fv a then Some (content_of fv) else r) of None \<Rightarrow> {} | Some c \<Rightarrow> key_lines c)"
    using Cons.prems by (simp add: refresh_keys)
  from Cons.IH [OF this] show ?case by simp
qed

lemma key_lines_length: "k \<in> key_lines content \<Longrightarrow> 8 \<le> length k"
  by (auto simp: key_lines_def)

text \<open>
  Claim C7. Take an access control constructed for the key file \<open>keysFileName\<close> (the
  constructor's refresh saw \<open>fv0\<close>) and refreshed any number of times (seeing \<open>fvs\<close>).
  With a non-empty file name, \<open>check k\<close> holds only if some refresh was triggered by the
  modification time and \<open>k\<close> is a trimmed line of at least 8 characters of the content
  the last such refresh read; a key shorter than 8 characters is refused. With an empty
  file name every key is accepted.
\<close>

theorem acl_check_sound:
  "(keysFileName \<noteq> [] \<and> check (refresh_all fvs (AccessControl_init keysFileName fv0)) k \<longrightarrow>
      (\<exists>content. last_reload (fv0 # fvs) (AccessControl_new keysFileName) None = Some content
                 \<and> k \<in> key_lines content \<and> 8 \<le> length k))
   \<and> (keysFileName \<noteq> [] \<and> length k < 8 \<longrightarrow>
        \<not> check (refresh_all fvs (AccessControl_init keysFileName fv0)) k)
   \<and> (keysFileName = [] \<longrightarrow> check (refresh_all fvs (AccessControl_init keysFileName fv0)) k)"
proof -
  let ?new = "AccessControl_new keysFileName"
  let ?a = "refresh_all fvs (AccessControl_init keysFileName fv0)"
  have run: "?a = refresh_all (fv0 # fvs) ?new"
    by (simp add: AccessControl_init_def)
  have en: "acl_enabled ?a = (keysFileName \<noteq> [])"
    by (simp add: run refresh_all_enabled AccessControl_new_def del: refresh_all.simps)
  have "acl_keys ?new = (case None of None \<Rightarrow> {} | Some c \<Rightarrow> key_lines c)"
    by (simp add: AccessControl_new_def)
  from refresh_all_keys [OF this, of "fv0 # fvs"]
  have keys: "acl_keys ?a =
      (case last_reload (fv0 # fvs) ?new None of None \<Rightarrow> {} | Some c \<Rightarrow> key_lines c)"
    by (simp only: run)
  have sound: "keysFileName \<noteq> [] \<Longrightarrow> check ?a k \<Longrightarrow>
      \<exists>content. last_reload (fv0 # fvs) ?new None = Some content
                 \<and> k \<in> key_lines content \<and> 8 \<le> length k"
    using keys en by (auto simp: check_def key_lines_length split: option.splits)
  have short: "keysFileName \<noteq> [] \<Longrightarrow> length k < 8 \<Longrightarrow> \<not> check ?a k"
    using sound by fastforce
  have off: "keysFileName = [] \<Longrightarrow> check ?a k"
    using en by (simp add: check_def)
  from sound short off show ?thesis by blast
qed

text \<open>
  The file \<^verbatim>\<open>keys.txt\<close> is read at time 5 (first version), then seen again at time 5
  (no reload), missing, at time 9 (second version, reloaded) and at time 7 (older, no
  reload): the key of the second version is accepted, its 7-character line and the keys
  of the first version are refused; with no file name configured the 7-character key is
  accepted.
\<close>

theorem acl_check_sound_witness:
  "check (refresh_all demo_views (AccessControl_init ''keys.txt'' (FileAt 5 demo_keys_v1))) ''miner-key-0002''
   \<and> last_reload (FileAt 5 demo_keys_v1 # demo_views) (AccessControl_new ''keys.txt'') None = Some demo_keys_v2
   \<and> ''miner-key-0002'' \<in> key_lines demo_keys_v2
   \<and> \<not> check (refresh_all demo_views (AccessControl_init ''keys.txt'' (FileAt 5 demo_keys_v1))) ''1234567''
   \<and> \<not> check (refresh_all demo_views (AccessControl_init ''keys.txt'' (FileAt 5 demo_keys_v1))) ''abcdefgh''
   \<and> check (refresh_all demo_views (AccessControl_init [] (FileAt 5 demo_keys_v1))) ''1234567''"
proof -
  have a: "refresh_all demo_views (AccessControl_init ''keys.txt'' (FileAt 5 demo_keys_v1))
           = \<lparr>acl_enabled = True, acl_keysFileName = ''keys.txt'', acl_lastModified = 9,
               acl_keys = {''miner-key-0002''}\<rparr>"
    by (auto simp: demo_views_def AccessControl_init_def AccessControl_new_def refresh_def
                   read_keys_def getlines_def trim_def is_space_def demo_keys_v1_def demo_keys_v2_def)
  have c: "check (refresh_all demo_views (AccessControl_init ''keys.txt'' (FileAt 5 demo_keys_v1))) ''miner-key-0002''"
    by (simp add: a check_def)
  have l: "last_reload (FileAt 5 demo_keys_v1 # demo_views) (AccessControl_new ''keys.txt'') None = Some demo_keys_v2"
    by (simp add: demo_views_def AccessControl_new_def refresh_def reloads_def)
  have n: "''keys.txt'' \<noteq> []" by simp
  from acl_check_sound [of "''keys.txt''" demo_views "FileAt 5 demo_keys_v1" "''miner-key-0002''"] c l n
  have k1: "''miner-key-0002'' \<in> key_lines demo_keys_v2" by simp
  from acl_check_sound [of "''keys.txt''" demo_views "FileAt 5 demo_keys_v1" "''1234567''"]
  have k2: "\<not> check (refresh_all demo_views (AccessControl_init ''keys.txt'' (FileAt 5 demo_keys_v1))) ''1234567''"
    by simp
  have k3: "\<not> check (refresh_all demo_views (AccessControl_init ''keys.txt'' (FileAt 5 demo_keys_v1))) ''abcdefgh''"
    by (simp add: a check_def)
  from acl_check_sound [of "[]" demo_views "FileAt 5 demo_keys_v1" "''1234567''"]
  have k4: "check (refresh_all demo_views (AccessControl_init [] (FileAt 5 demo_keys_v1))) ''1234567''"
    by simp
  from c l k1 k2 k3 k4 show ?thesis by blast
qed

subsection \<open>Solution intake\<close>

lemma demo_job_server_eq:
  "demo_job_server = demo_server\<lparr>
      connections := [(1, \<lparr>c_loggedIn = True, c_writable = True, c_written = [[Job ''J1'' 0 demo_pow 10]], c_shutdown = False\<rparr>),
                     (2, \<lparr>c_loggedIn = True, c_writable = True, c_written = [[Job ''J1'' 0 demo_pow 10]], c_shutdown = False\<rparr>),
                     (3, Connection_init True)],
      recentJob_id := ''J1'', recentJob_msg := [Job ''J1'' 0 demo_pow 10],
      recentResult_onBlockFound := Some 7\<rparr>"
  by (simp add: demo_job_server_def new_job_def append_json_msg_def demo_server_def send_msg_def
                Connection_init_def Let_def)

text \<open>
  Claim C9. With a callback stored, \<^verbatim>\<open>on_solution\<close> overwrites the most recent result
  (id, pow as \<^verbatim>\<open>fill_pow\<close> leaves it, delivering peer) and invokes the stored callback,
  whatever the solution's id and the current job id are; the job id is not read. In
  particular this holds after \<^verbatim>\<open>new_job\<close> followed by \<^verbatim>\<open>stop_current\<close>, which has
  cleared the job id.
\<close>

theorem on_solution_every_message:
  "(recentResult_onBlockFound s = Some cb \<longrightarrow>
      on_solution fill_pow from sol s =
        Inr (True, s\<lparr>recentResult_id := sol_id sol,
                     recentResult_pow := fill_pow sol (recentResult_pow s),
                     recentResult_resultFrom := from,
                     found_log := found_log s @ [cb]\<rparr>))
   \<and> (\<exists>s'. on_solution fill_pow from sol (stop_current (new_job job_id input pow height cb s)) = Inr (True, s')
           \<and> recentJob_id s' = [] \<and> recentResult_id s' = sol_id sol
           \<and> recentResult_resultFrom s' = from
           \<and> recentResult_pow s' = fill_pow sol (recentResult_pow s)
           \<and> found_log s' = found_log s @ [cb])"
  by (simp add: on_solution_def stop_current_def new_job_def append_json_msg_def Let_def
           split: prod.splits)

text \<open>A solution for job J1 arrives while the current job is J2: the callback of J2 runs.\<close>

theorem on_solution_every_message_witness:
  "recentResult_onBlockFound (new_job ''J2'' 0 demo_pow 10 7 demo_server) = Some 7
   \<and> recentJob_id (new_job ''J2'' 0 demo_pow 10 7 demo_server) = ''J2''
   \<and> sol_id demo_solution = ''J1''
   \<and> found_after (on_solution demo_fill_pow 1 demo_solution (new_job ''J2'' 0 demo_pow 10 7 demo_server)) = [7]
   \<and> recentResult_id (server_after (on_solution demo_fill_pow 1 demo_solution (new_job ''J2'' 0 demo_pow 10 7 demo_server))) = ''J1''"
proof -
  have cb: "recentResult_onBlockFound (new_job ''J2'' 0 demo_pow 10 7 demo_server) = Some 7"
    by (simp add: new_job_def append_json_msg_def Let_def split: prod.splits)
  have jid: "recentJob_id (new_job ''J2'' 0 demo_pow 10 7 demo_server) = ''J2''"
    by (simp add: new_job_def append_json_msg_def Let_def split: prod.splits)
  have fl: "found_log (new_job ''J2'' 0 demo_pow 10 7 demo_server) = []"
    by (simp add: new_job_def append_json_msg_def Let_def demo_server_def split: prod.splits)
  from on_solution_every_message [of "new_job ''J2'' 0 demo_pow 10 7 demo_server" 7 demo_fill_pow 1 demo_solution]
    cb jid fl
  show ?thesis by (simp add: demo_solution_def)
qed

text \<open>
  Claim C5, as stated, fails. Job J1 is pushed with callback 7; peer 2 delivers two
  solutions for J1 and the callback runs twice. And when peer 1 and then peer 2 deliver a
  solution and the node answers both with \<^verbatim>\<open>solution_result\<close>, both replies are
  written to peer 2: peer 1, which delivered a solution too, receives nothing beyond the
  job.
\<close>

theorem onFound_once_per_job_counterexample:
  "found_after (on_solution demo_fill_pow 2 demo_solution
      (server_after (on_solution demo_fill_pow 2 demo_solution demo_job_server))) = [7, 7]
   \<and> map_option (conn_written 1)
        (Option.bind
           (result_server (solution_result ''J1'' True 99 11
              (server_after (on_solution demo_fill_pow 2 demo_solution
                 (server_after (on_solution demo_fill_pow 1 demo_solution demo_job_server))))))
           (\<lambda>s. result_server (solution_result ''J1'' False 0 0 s)))
      = Some [[Job ''J1'' 0 demo_pow 10]]
   \<and> map_option (conn_written 2)
        (Option.bind
           (result_server (solution_result ''J1'' True 99 11
              (server_after (on_solution demo_fill_pow 2 demo_solution
                 (server_after (on_solution demo_fill_pow 1 demo_solution demo_job_server))))))
           (\<lambda>s. result_server (solution_result ''J1'' False 0 0 s)))
      = Some [[Job ''J1'' 0 demo_pow 10], [SolutionResult ''J1'' solution_accepted 99 11],
              [Result ''J1'' solution_rejected]]"
  by (simp add: demo_job_server_eq on_solution_def demo_server_def solution_result_def
                append_json_msg_def send_msg_def conn_written_def Connection_init_def)

text \<open>
  Claim C5, amended. With a callback stored, every Solution message makes
  \<^verbatim>\<open>on_solution\<close> invoke the stored callback once (once for each message, not once for
  each job) and record the delivering peer; a \<^verbatim>\<open>solution_result\<close> that follows writes its
  reply frame to that peer, the peer of the most recent solution, when it is connected,
  logged in and its stream writable, changes no other connection and invokes nothing.
\<close>

theorem solution_intake_per_message:
  assumes "recentResult_onBlockFound s = Some cb"
  shows "\<exists>s'. on_solution fill_pow from sol s = Inr (True, s')
           \<and> found_log s' = found_log s @ [cb]
           \<and> recentResult_resultFrom s' = from
           \<and> (\<forall>c. map_of (connections s) from = Some c \<and> c_loggedIn c \<and> c_writable c \<longrightarrow>
                (\<exists>s''. solution_result jobID accepted blockHash blockHeight s' = Inr s''
                   \<and> map_of (connections s'') =
                       (map_of (connections s))(from \<mapsto>
                          c\<lparr>c_written := c_written c @
                               [currentMsg s @
                                [if accepted then SolutionResult jobID solution_accepted blockHash blockHeight
                                 else Result jobID solution_rejected]]\<rparr>)
                   \<and> found_log s'' = found_log s @ [cb]))"
  using assms
  by (auto simp: on_solution_def solution_result_def append_json_msg_def send_msg_def
                 update_conv')

text \<open>Peer 2 delivers one solution for J1 and receives the reply after the job frame.\<close>

theorem solution_intake_per_message_witness:
  "recentResult_onBlockFound demo_job_server = Some 7
   \<and> found_after (on_solution demo_fill_pow 2 demo_solution demo_job_server) = [7]
   \<and> map_option (conn_written 2)
        (result_server (solution_result ''J1'' True 99 11
           (server_after (on_solution demo_fill_pow 2 demo_solution demo_job_server))))
      = Some [[Job ''J1'' 0 demo_pow 10], [SolutionResult ''J1'' solution_accepted 99 11]]"
proof -
  have cb: "recentResult_onBlockFound demo_job_server = Some 7"
    by (simp add: demo_job_server_eq)
  have c2: "map_of (connections demo_job_server) 2 =
      Some \<lparr>c_loggedIn = True, c_writable = True, c_written = [[Job ''J1'' 0 demo_pow 10]], c_shutdown = False\<rparr>"
    by (simp add: demo_job_server_eq)
  have e: "found_log demo_job_server = []" "currentMsg demo_job_server = []"
    by (simp_all add: demo_job_server_eq demo_server_def)
  from solution_intake_per_message [OF cb, of demo_fill_pow 2 demo_solution "''J1''" True 99 11]
  obtain s' where s': "on_solution demo_fill_pow 2 demo_solution demo_job_server = Inr (True, s')"
      "found_log s' = found_log demo_job_server @ [7]"
      "\<forall>c. map_of (connections demo_job_server) 2 = Some c \<and> c_loggedIn c \<and> c_writable c \<longrightarrow>
           (\<exists>s''. solution_result ''J1'' True 99 11 s' = Inr s''
              \<and> map_of (connections s'') =
                  (map_of (connections demo_job_server))(2 \<mapsto>
                     c\<lparr>c_written := c_written c @
                          [currentMsg demo_job_server @ [SolutionResult ''J1'' solution_accepted 99 11]]\<rparr>)
              \<and> found_log s'' = found_log demo_job_server @ [7])"
    by auto
  from s'(3) c2 obtain s'' where s'': "solution_result ''J1'' True 99 11 s' = Inr s''"
      "map_of (connections s'') =
         (map_of (connections demo_job_server))(2 \<mapsto>
            \<lparr>c_loggedIn = True, c_writable = True,
             c_written = [[Job ''J1'' 0 demo_pow 10], [SolutionResult ''J1'' solution_accepted 99 11]],
             c_shutdown = False\<rparr>)"
    by (auto simp: e)
  show ?thesis using cb s'(1,2) s'' by (simp add: e conn_written_def)
qed

text \<open>
  Claim C6: what the code does with a Solution from a peer that has not logged in. Peer 3
  of the sample server is connected and not logged in; the server holds job J1 with
  callback 7, no result and an empty invocation log. The connection's handler passes the
  solution on: the most recent result is overwritten (id J1, peer 3) and callback 7 is
  invoked.
\<close>

theorem solution_from_not_logged_in_peer:
  "map_option c_loggedIn (map_of (connections demo_job_server) 3) = Some False
   \<and> recentResult_id demo_job_server = []
   \<and> found_log demo_job_server = []
   \<and> Connection_on_message_Solution demo_fill_pow 3 demo_solution demo_job_server =
       Inr (True, demo_job_server\<lparr>recentResult_id := ''J1'',
                                  recentResult_pow := demo_fill_pow demo_solution demo_pow,
                                  recentResult_resultFrom := 3,
                                  found_log := [7]\<rparr>)"
  by (simp add: demo_job_server_eq Connection_on_message_Solution_def on_solution_def
                demo_server_def Connection_init_def demo_solution_def)

section \<open>Properties of the wallet transactions\<close>

subsection \<open>Failure notification\<close>

lemma NotifyFailure_other_status:
  "p_Status (bag w) \<noteq> Some Pending \<Longrightarrow> p_Status (bag w) \<noteq> Some InProgress \<Longrightarrow>
   NotifyFailure env reason w = w"
  by (auto simp: NotifyFailure_def get_or_def split: option.splits)

lemma gateway_UpdateTxDescription [simp]:
  "gateway (UpdateTxDescription env s w) = gateway w"
  by (simp add: UpdateTxDescription_def SetParameter_def)

lemma gateway_RollbackTx [simp]: "gateway (RollbackTx env w) = gateway w"
  by (simp add: RollbackTx_def)

text \<open>
  Claim C10. When the persisted status is neither \<^verbatim>\<open>Pending\<close> nor \<^verbatim>\<open>InProgress\<close>
  (it is \<^verbatim>\<open>Registered\<close>, \<^verbatim>\<open>Completed\<close>, \<^verbatim>\<open>Failed\<close>, \<^verbatim>\<open>Cancelled\<close> or absent, read
  as \<^verbatim>\<open>Failed\<close>), \<^verbatim>\<open>NotifyFailure\<close> changes nothing, and the only gateway call of
  \<^verbatim>\<open>OnFailed\<close>, also when notification is requested, and of \<^verbatim>\<open>Cancel\<close> is
  \<^verbatim>\<open>on_tx_completed\<close>: no message goes to the peer.
\<close>

theorem failure_message_only_when_open:
  assumes "p_Status (bag w) \<noteq> Some Pending" and "p_Status (bag w) \<noteq> Some InProgress"
  shows "NotifyFailure env reason w = w
       \<and> gateway (OnFailed env reason notify w) = gateway w @ [on_tx_completed (e_TxID env)]
       \<and> gateway (Cancel env w) = gateway w @ [on_tx_completed (e_TxID env)]"
proof -
  have n: "\<And>r. NotifyFailure env r w = w"
    using assms by (rule NotifyFailure_other_status)
  have s: "get_or Failed p_Status w \<noteq> Pending"
    using assms by (auto simp: get_or_def split: option.splits)
  have o: "gateway (OnFailed env reason notify w) = gateway w @ [on_tx_completed (e_TxID env)]"
    by (simp add: OnFailed_def n gateway_call_def Let_def)
  have c: "gateway (Cancel env w) = gateway w @ [on_tx_completed (e_TxID env)]"
    using s by (simp add: Cancel_def n gateway_call_def Let_def)
  from n o c show ?thesis by simp
qed

text \<open>
  With status \<^verbatim>\<open>Registered\<close> a failure with notification requested and a cancel only
  signal completion; with status \<^verbatim>\<open>InProgress\<close> the same failure sends the message.
\<close>

theorem failure_message_only_when_open_witness:
  "p_Status (bag (demo_world demo_proved demo_coins)) = Some Registered
   \<and> gateway (OnFailed demo_env InvalidTransaction True (demo_world demo_proved demo_coins))
       = [on_tx_completed 42]
   \<and> gateway (Cancel demo_env (demo_world demo_proved demo_coins)) = [on_tx_completed 42]
   \<and> gateway (OnFailed demo_env InvalidTransaction True (demo_world demo_invited demo_coins))
       = [send_tx_params demo_peer
            \<lparr>msg_From = demo_my, msg_TxID = 42, msg_Type = Simple,
             msg_Parameters = [P_FailureReason InvalidTransaction]\<rparr>,
          on_tx_completed 42]"
proof -
  have st: "p_Status (bag (demo_world demo_proved demo_coins)) = Some Registered"
    by (simp add: demo_world_def demo_proved_def)
  have g: "gateway (demo_world demo_proved demo_coins) = []" "e_TxID demo_env = 42"
    by (simp_all add: demo_world_def demo_env_def)
  have a: "p_Status (bag (demo_world demo_proved demo_coins)) \<noteq> Some Pending"
          "p_Status (bag (demo_world demo_proved demo_coins)) \<noteq> Some InProgress"
    by (simp_all add: st)
  have open_case:
    "gateway (OnFailed demo_env InvalidTransaction True (demo_world demo_invited demo_coins))
       = [send_tx_params demo_peer
            \<lparr>msg_From = demo_my, msg_TxID = 42, msg_Type = Simple,
             msg_Parameters = [P_FailureReason InvalidTransaction]\<rparr>,
          on_tx_completed 42]"
    by (simp add: OnFailed_def NotifyFailure_def get_or_def SendTxParameters_def gateway_call_def
                  demo_world_def demo_invited_def empty_params_def demo_env_def Let_def)
  from failure_message_only_when_open [OF a, of demo_env InvalidTransaction True] st g open_case
  show ?thesis by simp
qed


subsection \<open>Failures set by the peer\<close>

lemma CheckExternalFailures_InProgress:
  "p_FailureReason (bag w) = Some reason \<Longrightarrow> p_Status (bag w) = Some InProgress \<Longrightarrow>
   CheckExternalFailures env w = (Inr True, OnFailed env reason False w)"
  by (simp add: CheckExternalFailures_def bind_def GetMandatoryParameter_def
                OnFailed_notify_default_def)

lemma OnFailed_silent:
  "OnFailed env reason False w =
     w\<lparr>bag := (bag w)\<lparr>p_Status := Some (if reason = ReasonCancelled then Cancelled else Failed),
                        p_ModifyTime := Some (e_now env)\<rparr>,
       db := db_rollbackTx env (e_TxID env) (db w),
       gateway := gateway w @ [on_tx_completed (e_TxID env)]\<rparr>"
  by (simp add: OnFailed_def UpdateTxDescription_def SetParameter_def RollbackTx_def
                gateway_call_def Let_def)

text \<open>
  Claim C4. With a \<^verbatim>\<open>FailureReason\<close> in the bag and status \<^verbatim>\<open>InProgress\<close>,
  \<^verbatim>\<open>Update()\<close> does exactly this: the status becomes \<^verbatim>\<open>Failed\<close> (\<^verbatim>\<open>Cancelled\<close> for
  the reason \<^verbatim>\<open>Cancelled\<close>) with the modification time, the store is rolled back for
  this transaction, and \<^verbatim>\<open>on_tx_completed\<close> is the only call on the gateway: nothing is
  sent to the peer.
\<close>

theorem external_failure_fails_locally:
  assumes "p_FailureReason (bag w) = Some reason" and "p_Status (bag w) = Some InProgress"
  shows "Update env w =
           w\<lparr>bag := (bag w)\<lparr>p_Status := Some (if reason = ReasonCancelled then Cancelled else Failed),
                              p_ModifyTime := Some (e_now env)\<rparr>,
             db := db_rollbackTx env (e_TxID env) (db w),
             gateway := gateway w @ [on_tx_completed (e_TxID env)]\<rparr>"
  using assms
  by (simp add: Update_def Update_try_def bind_def ret_def CheckExternalFailures_InProgress
                OnFailed_silent)

text \<open>The invited sender receives the peer's failure reason.\<close>

theorem external_failure_fails_locally_witness:
  "p_FailureReason (bag (demo_world (demo_invited\<lparr>p_FailureReason := Some InvalidPeerSignature\<rparr>) demo_coins))
     = Some InvalidPeerSignature
   \<and> p_Status (bag (demo_world (demo_invited\<lparr>p_FailureReason := Some InvalidPeerSignature\<rparr>) demo_coins))
     = Some InProgress
   \<and> gateway (Update demo_env (demo_world (demo_invited\<lparr>p_FailureReason := Some InvalidPeerSignature\<rparr>) demo_coins))
     = [on_tx_completed 42]
   \<and> p_Status (bag (Update demo_env (demo_world (demo_invited\<lparr>p_FailureReason := Some InvalidPeerSignature\<rparr>) demo_coins)))
     = Some Failed
   \<and> db (Update demo_env (demo_world (demo_invited\<lparr>p_FailureReason := Some InvalidPeerSignature\<rparr>) demo_coins))
     = demo_rollbackTx 42 demo_coins"
proof -
  let ?w = "demo_world (demo_invited\<lparr>p_FailureReason := Some InvalidPeerSignature\<rparr>) demo_coins"
  have r: "p_FailureReason (bag ?w) = Some InvalidPeerSignature"
    by (simp add: demo_world_def)
  have s: "p_Status (bag ?w) = Some InProgress"
    by (simp add: demo_world_def demo_invited_def)
  from external_failure_fails_locally [OF r s, of demo_env] r s
  show ?thesis by (simp add: demo_world_def demo_env_def)
qed


subsection \<open>The exception handlers of Update\<close>

lemma CheckExternalFailures_False:
  "CheckExternalFailures env w = (Inr False, w') \<Longrightarrow> w' = w"
  by (auto simp: CheckExternalFailures_def bind_def GetMandatoryParameter_def
           split: option.splits if_splits)

lemma Update_after_check:
  "CheckExternalFailures env w = (Inr False, w) \<Longrightarrow>
   Update env w =
     (case UpdateImpl env w of
        (Inl e, w1) \<Rightarrow> Update_catch env e w1
      | (Inr u, w1) \<Rightarrow>
          (case CheckExpired env w1 of
             (Inl e, w2) \<Rightarrow> Update_catch env e w2
           | (Inr u', w2) \<Rightarrow> w2))"
  by (simp add: Update_def Update_try_def bind_def split: prod.splits sum.splits)

text \<open>
  Claim C8. When no peer failure is consumed and \<^verbatim>\<open>UpdateImpl\<close> throws, leaving the
  world \<open>w1\<close>: for an exception other than \<^verbatim>\<open>TransactionFailedException\<close> the result
  of \<^verbatim>\<open>Update()\<close> is \<open>w1\<close> itself (bag, store, gateway calls as the throwing step left
  them); for a \<^verbatim>\<open>TransactionFailedException\<close> it is \<^verbatim>\<open>OnFailed\<close> with the reason and
  the notify flag of the exception, run on \<open>w1\<close>.
\<close>

theorem other_exception_only_logged:
  assumes "CheckExternalFailures env w = (Inr False, w)"
  shows "(UpdateImpl env w = (Inl std_exception, w1) \<longrightarrow> Update env w = w1)
       \<and> (UpdateImpl env w = (Inl (TransactionFailedException notify reason), w1) \<longrightarrow>
            Update env w = OnFailed env reason notify w1)"
  by (simp add: Update_after_check [OF assms])

lemma demo_no_IsSender:
  "UpdateImpl demo_env (demo_world empty_params demo_coins)
     = (Inl std_exception, demo_world empty_params demo_coins)"
  by (simp add: UpdateImpl_def UpdateImpl_negotiate_def and_then_def UpdateImpl_setup_def bind_def
                GetMandatoryParameter_def demo_world_def empty_params_def demo_env_def)

lemma demo_no_inputs:
  "UpdateImpl demo_env (demo_world demo_fresh demo_poor)
     = (Inl (TransactionFailedException False NoInputs),
        (demo_world demo_fresh demo_poor)\<lparr>m_IsInitiator := Some True\<rparr>)"
  by code_simp

text \<open>
  An empty bag makes \<^verbatim>\<open>GetMandatoryParameter\<close> throw (here a plain exception): nothing
  changes. A fresh sender whose store cannot pay makes \<^verbatim>\<open>SelectInputs\<close> throw the
  \<^verbatim>\<open>TransactionFailedException\<close>, which goes to \<^verbatim>\<open>OnFailed\<close>.
\<close>

theorem other_exception_only_logged_witness:
  "CheckExternalFailures demo_env (demo_world empty_params demo_coins)
     = (Inr False, demo_world empty_params demo_coins)
   \<and> UpdateImpl demo_env (demo_world empty_params demo_coins)
     = (Inl std_exception, demo_world empty_params demo_coins)
   \<and> Update demo_env (demo_world empty_params demo_coins) = demo_world empty_params demo_coins
   \<and> CheckExternalFailures demo_env (demo_world demo_fresh demo_poor)
     = (Inr False, demo_world demo_fresh demo_poor)
   \<and> UpdateImpl demo_env (demo_world demo_fresh demo_poor)
     = (Inl (TransactionFailedException False NoInputs),
        (demo_world demo_fresh demo_poor)\<lparr>m_IsInitiator := Some True\<rparr>)
   \<and> Update demo_env (demo_world demo_fresh demo_poor)
     = OnFailed demo_env NoInputs False ((demo_world demo_fresh demo_poor)\<lparr>m_IsInitiator := Some True\<rparr>)"
proof -
  have c1: "CheckExternalFailures demo_env (demo_world empty_params demo_coins)
              = (Inr False, demo_world empty_params demo_coins)"
    by (simp add: CheckExternalFailures_def demo_world_def empty_params_def)
  have c2: "CheckExternalFailures demo_env (demo_world demo_fresh demo_poor)
              = (Inr False, demo_world demo_fresh demo_poor)"
    by (simp add: CheckExternalFailures_def demo_world_def demo_fresh_def empty_params_def)
  from other_exception_only_logged [OF c1, of "demo_world empty_params demo_coins"] demo_no_IsSender
  have u1: "Update demo_env (demo_world empty_params demo_coins) = demo_world empty_params demo_coins"
    by simp
  from other_exception_only_logged [OF c2,
         of "(demo_world demo_fresh demo_poor)\<lparr>m_IsInitiator := Some True\<rparr>" False NoInputs]
       demo_no_inputs
  have u2: "Update demo_env (demo_world demo_fresh demo_poor)
     = OnFailed demo_env NoInputs False ((demo_world demo_fresh demo_poor)\<lparr>m_IsInitiator := Some True\<rparr>)"
    by simp
  from c1 c2 u1 u2 demo_no_IsSender demo_no_inputs show ?thesis by simp
qed


subsection \<open>Expiry\<close>

lemma CheckExpired_expired:
  "p_Status (bag w) = Some s \<Longrightarrow> s \<noteq> Completed \<Longrightarrow> e_tip env = Some height \<Longrightarrow>
   get_or (e_MaxHeight env) p_MaxHeight w < height \<Longrightarrow>
   CheckExpired env w = (Inr (), OnFailed env TransactionExpired False w)"
  by (simp add: CheckExpired_def bind_def GetMandatoryParameter_def OnFailed_notify_default_def)

lemma CheckExpired_Completed:
  "p_Status (bag w) = Some Completed \<Longrightarrow> CheckExpired env w = (Inr (), w)"
  by (simp add: CheckExpired_def bind_def GetMandatoryParameter_def)

text \<open>
  Claim C3, amended. When \<^verbatim>\<open>Update()\<close> consumes no peer failure and \<^verbatim>\<open>UpdateImpl\<close>
  returns without throwing, leaving \<open>w1\<close>, and in \<open>w1\<close> the status is not
  \<^verbatim>\<open>Completed\<close>, and the gateway reports a tip whose height exceeds \<^verbatim>\<open>MaxHeight\<close> (the
  parameter, or the constant when the parameter is absent), then the transaction fails
  with \<^verbatim>\<open>TransactionExpired\<close>: status \<^verbatim>\<open>Failed\<close>, the store rolled back,
  \<^verbatim>\<open>on_tx_completed\<close> called.
\<close>

theorem expires_after_UpdateImpl:
  assumes "CheckExternalFailures env w = (Inr False, w)"
    and "UpdateImpl env w = (Inr (), w1)"
    and "p_Status (bag w1) = Some s" and "s \<noteq> Completed"
    and "e_tip env = Some height"
    and "get_or (e_MaxHeight env) p_MaxHeight w1 < height"
  shows "Update env w =
           w1\<lparr>bag := (bag w1)\<lparr>p_Status := Some Failed, p_ModifyTime := Some (e_now env)\<rparr>,
              db := db_rollbackTx env (e_TxID env) (db w1),
              gateway := gateway w1 @ [on_tx_completed (e_TxID env)]\<rparr>"
proof -
  have "CheckExpired env w1 = (Inr (), OnFailed env TransactionExpired False w1)"
    using assms(3-6) by (rule CheckExpired_expired)
  then have "Update env w = OnFailed env TransactionExpired False w1"
    by (simp add: Update_after_check [OF assms(1)] assms(2))
  then show ?thesis by (simp add: OnFailed_silent)
qed

lemma demo_invited_waits:
  "UpdateImpl demo_env_late (demo_world demo_invited demo_coins)
     = (Inr (), (demo_world demo_invited demo_coins))"
  by code_simp

text \<open>The invited sender is still waiting for the peer when the tip reaches 51.\<close>

theorem expires_after_UpdateImpl_witness:
  "CheckExternalFailures demo_env_late (demo_world demo_invited demo_coins)
      = (Inr False, demo_world demo_invited demo_coins)
   \<and> UpdateImpl demo_env_late (demo_world demo_invited demo_coins)
      = (Inr (), demo_world demo_invited demo_coins)
   \<and> p_Status (bag (demo_world demo_invited demo_coins)) = Some InProgress
   \<and> e_tip demo_env_late = Some 51
   \<and> get_or (e_MaxHeight demo_env_late) p_MaxHeight (demo_world demo_invited demo_coins) = 50
   \<and> p_Status (bag (Update demo_env_late (demo_world demo_invited demo_coins))) = Some Failed
   \<and> db (Update demo_env_late (demo_world demo_invited demo_coins)) = demo_rollbackTx 42 demo_coins
   \<and> gateway (Update demo_env_late (demo_world demo_invited demo_coins)) = [on_tx_completed 42]"
proof -
  let ?w = "demo_world demo_invited demo_coins"
  have c: "CheckExternalFailures demo_env_late ?w = (Inr False, ?w)"
    by (simp add: CheckExternalFailures_def demo_world_def demo_invited_def empty_params_def)
  have s: "p_Status (bag ?w) = Some InProgress"
    by (simp add: demo_world_def demo_invited_def)
  have n: "InProgress \<noteq> Completed" by simp
  have t: "e_tip demo_env_late = Some 51" by (simp add: demo_env_late_def)
  have m: "get_or (e_MaxHeight demo_env_late) p_MaxHeight ?w = 50"
    by (simp add: get_or_def demo_world_def demo_invited_def)
  have lt: "get_or (e_MaxHeight demo_env_late) p_MaxHeight ?w < 51" by (simp add: m)
  from expires_after_UpdateImpl [OF c demo_invited_waits s n t lt] c s t m demo_invited_waits
  show ?thesis by (simp add: demo_env_late_def demo_env_def demo_world_def)
qed

lemma demo_proved_negotiated:
  "UpdateImpl_negotiate demo_env (demo_world demo_proved demo_coins)
     = (Inr (Next \<lparr>isSender = True, isSelfTx = False, txState = KernelConfirmation,
           builder =
             \<lparr>m_AmountList = [10], m_Fee = 1, m_Change = 0, m_MinHeight = 0,
                m_MaxHeight = 50, m_Inputs = [4, 7], m_Outputs = [],
                m_Offset = 12, m_BlindingExcess = 9,
                m_Kernel =
                  Some
                   \<lparr>k_Fee = 1, k_Height_Min = 0, k_Height_Max = 50,
                      k_Commitment = 17, k_Signature_NoncePub = 83,
                      k_Signature_k = 88\<rparr>,
                m_MultiSig_Nonce = 77, m_MultiSig_NoncePub = 83,
                m_PeerPublicExcess = 8, m_PeerPublicNonce = 6,
                m_PeerSignature = 2, m_PeerInputs = [],
                m_PeerOutputs = [10], m_PeerOffset = 1,
                m_PartialSignature = 86, m_Message = 17\<rparr>,
           hasPeersInputsAndOutputs = True\<rparr>),
        (demo_world demo_proved demo_coins)\<lparr>m_IsInitiator := Some True\<rparr>)"
  by code_simp

lemma demo_proved_Update:
  "Update demo_env_late (demo_world demo_proved demo_coins)
     = \<lparr>bag = demo_proved\<lparr>p_Status := Some Completed, p_ModifyTime := Some 1000\<rparr>,
        db = demo_confirmed, gateway = [on_tx_completed 42], m_IsInitiator = Some True\<rparr>"
  by code_simp

text \<open>
  Claim C3, as stated, fails. The bag holds status \<^verbatim>\<open>Registered\<close> and
  \<^verbatim>\<open>MaxHeight = 50\<close>, the tip is at 51, and the kernel proof has arrived:
  \<^verbatim>\<open>UpdateImpl\<close> completes the transaction before \<^verbatim>\<open>CheckExpired\<close> reads the status,
  so the transaction ends \<^verbatim>\<open>Completed\<close> with its coins confirmed, not expired.
\<close>

theorem expired_unless_completed_counterexample:
  "p_Status (bag (demo_world demo_proved demo_coins)) = Some Registered
   \<and> e_tip demo_env_late = Some 51
   \<and> p_MaxHeight (bag (demo_world demo_proved demo_coins)) = Some 50
   \<and> p_Status (bag (Update demo_env_late (demo_world demo_proved demo_coins))) = Some Completed
   \<and> db (Update demo_env_late (demo_world demo_proved demo_coins)) = demo_confirmed
   \<and> gateway (Update demo_env_late (demo_world demo_proved demo_coins)) = [on_tx_completed 42]"
  by (simp add: demo_proved_Update) (simp add: demo_world_def demo_proved_def demo_invited_def demo_env_late_def)


subsection \<open>The proof height is never written by the negotiation steps\<close>

lemma kph_bind:
  assumes "\<And>w. kph (snd (m w)) = kph w" and "\<And>x w. kph (snd (f x w)) = kph w"
  shows "kph (snd (bind m f w)) = kph w"
proof (cases "m w")
  case (Pair r w')
  have "kph w' = kph w" using assms(1) [of w] Pair by simp
  then show ?thesis using Pair assms(2) by (cases r) (simp_all add: bind_def)
qed

lemma kph_and_then:
  assumes "\<And>w. kph (snd (m w)) = kph w" and "\<And>x w. kph (snd (f x w)) = kph w"
  shows "kph (snd (and_then m f w)) = kph w"
proof (cases "m w")
  case (Pair r w')
  have w': "kph w' = kph w" using assms(1) [of w] Pair by simp
  show ?thesis
  proof (cases r)
    case (Inl e)
    then show ?thesis using Pair w' by (simp add: and_then_def)
  next
    case (Inr fl)
    then show ?thesis using Pair w' assms(2) by (cases fl) (simp_all add: and_then_def)
  qed
qed

lemma kph_ret [simp]: "kph (snd (ret x w)) = kph w"
  by (simp add: ret_def)

lemma kph_throw [simp]: "kph (snd (throw e w)) = kph w"
  by (simp add: throw_def)

lemma kph_GetMandatoryParameter [simp]: "kph (snd (GetMandatoryParameter env p w)) = kph w"
  by (simp add: GetMandatoryParameter_def split: option.splits)

lemma kph_IsInitiator [simp]: "kph (snd (IsInitiator env w)) = kph w"
  by (simp add: IsInitiator_def bind_def GetMandatoryParameter_def split: option.splits)

lemma kph_IsSelfTx [simp]: "kph (snd (IsSelfTx env w)) = kph w"
  by (simp add: IsSelfTx_def kph_bind)

lemma kph_SetState [simp]: "kph (SetState s w) = kph w"
  by (simp add: SetState_def SetParameter_def)

lemma kph_gateway_call [simp]: "kph (gateway_call c w) = kph w"
  by (simp add: gateway_call_def)

lemma kph_UpdateTxDescription [simp]: "kph (UpdateTxDescription env s w) = kph w"
  by (simp add: UpdateTxDescription_def SetParameter_def)

lemma kph_SendTxParameters [simp]: "kph (snd (SendTxParameters env ps w)) = kph w"
  by (simp add: SendTxParameters_def split: option.splits)

lemma kph_NotifyFailure [simp]: "kph (NotifyFailure env r w) = kph w"
  by (simp add: NotifyFailure_def Let_def)

lemma kph_RollbackTx [simp]: "kph (RollbackTx env w) = kph w"
  by (simp add: RollbackTx_def)

lemma kph_OnFailed [simp]: "kph (OnFailed env r n w) = kph w"
  by (simp add: OnFailed_def Let_def)

lemma kph_ConfirmKernel [simp]: "kph (ConfirmKernel env k w) = kph w"
  by (simp add: ConfirmKernel_def)

lemma kph_SendInvitation [simp]: "kph (SendInvitation env b s w) = kph w"
proof -
  obtain sent w1 where s: "SendTxParameters env
                         [P_Amount (GetAmount b), P_Fee (m_Fee b), P_MinHeight (m_MinHeight b),
                          P_MaxHeight (m_MaxHeight b), P_IsSender (\<not> s),
                          P_PeerProtoVersion s_ProtoVersion,
                          P_PeerPublicExcess (GetPublicExcess env b),
                          P_PeerPublicNonce (GetPublicNonce env b)] w = (sent, w1)"
    by (cases "SendTxParameters env
                         [P_Amount (GetAmount b), P_Fee (m_Fee b), P_MinHeight (m_MinHeight b),
                          P_MaxHeight (m_MaxHeight b), P_IsSender (\<not> s),
                          P_PeerProtoVersion s_ProtoVersion,
                          P_PeerPublicExcess (GetPublicExcess env b),
                          P_PeerPublicNonce (GetPublicNonce env b)] w")
  from kph_SendTxParameters [of env _ w] s have "kph w1 = kph w" by (metis snd_conv)
  then show ?thesis by (simp add: SendInvitation_def s)
qed

lemma kph_ConfirmTransaction [simp]: "kph (ConfirmTransaction env b u w) = kph w"
  by (simp add: ConfirmTransaction_def split: option.splits)

lemma kph_NotifyTransactionRegistered [simp]: "kph (NotifyTransactionRegistered env w) = kph w"
  by (simp add: NotifyTransactionRegistered_def)

lemma kph_SetMyAddressID [simp]: "kph (SetMyAddressID env w) = kph w"
  by (simp add: SetMyAddressID_def SetParameter_def split: option.splits)

lemma kph_FinalizeOutputs [simp]: "kph (FinalizeOutputs b w) = kph w"
  by (simp add: FinalizeOutputs_def SetParameter_def)

lemma kph_StoreKernelID [simp]: "kph (StoreKernelID env b w) = kph w"
  by (simp add: StoreKernelID_def SetParameter_def split: option.splits)

lemma kph_SignPartial [simp]: "kph (snd (SignPartial env b w)) = kph w"
  by (simp add: SignPartial_def Let_def split: option.splits)

lemma kph_FinalizeSignature [simp]: "kph (snd (FinalizeSignature env b w)) = kph w"
  by (simp add: FinalizeSignature_def Let_def split: option.splits)

lemma kph_CreateKernel [simp]: "kph (snd (CreateKernel env b w)) = kph w"
  by (auto simp: CreateKernel_def Let_def SetParameter_def split: option.splits prod.splits)

lemma kph_AddOutput [simp]: "kph (snd (AddOutput env a c bw)) = kph (snd bw)"
  by (simp add: AddOutput_def CreateOutput_def Let_def split: prod.splits)

lemma kph_AddChangeOutput [simp]: "kph (snd (AddChangeOutput env bw)) = kph (snd bw)"
  by (simp add: AddChangeOutput_def)

lemma kph_AddOutputs [simp]:
  "kph (snd (foldl (\<lambda>bw amount. AddOutput env amount False bw) bw amounts)) = kph (snd bw)"
  by (induction amounts arbitrary: bw) simp_all

lemma kph_run: "(\<And>w. kph (f w) = kph w) \<Longrightarrow> kph (snd (run f w)) = kph w"
  by (simp add: run_def)

lemma kph_lift: "(\<And>w. kph (snd (f w)) = kph w) \<Longrightarrow> kph (snd (lift f w)) = kph w"
  by (simp add: lift_def split: prod.splits) (metis snd_conv)

lemma kph_SelectInputs [simp]: "kph (snd (SelectInputs env b w)) = kph w"
  by (auto simp: SelectInputs_def Let_def SetParameter_def bind_def throw_def IsInitiator_def
                 GetMandatoryParameter_def
           split: prod.splits option.splits sum.splits)

lemma kph_AddOutputs_pair:
  "foldl (\<lambda>bw amount. AddOutput env amount False bw) (b, w) amounts = (b', w') \<Longrightarrow> kph w' = kph w"
  using kph_AddOutputs [of env "(b, w)" amounts] by simp

lemma kph_CreateInitialParams [simp]: "kph (snd (CreateInitialParams env s t b w)) = kph w"
  unfolding CreateInitialParams_def
  by (intro kph_bind kph_lift)
     (auto simp: kph_bind kph_lift split: prod.splits dest: kph_AddOutputs_pair)

lemma kph_ConfirmInvitation [simp]: "kph (snd (ConfirmInvitation env b u w)) = kph w"
  unfolding ConfirmInvitation_def by (intro kph_bind kph_run) simp_all

lemma kph_AcceptInvitation [simp]: "kph (snd (AcceptInvitation env b h w)) = kph w"
  unfolding AcceptInvitation_def
  by (intro kph_bind kph_run) (simp_all add: SetParameter_def Let_def split: option.splits)

lemma kph_VerifyPayment [simp]: "kph (VerifyPayment env w) = kph w"
  by (simp add: VerifyPayment_def)

lemma kph_RegisterTx [simp]: "kph (RegisterTx env l w) = kph w"
  by (simp add: RegisterTx_def Let_def)

lemma kph_pairD: "f w = (x, w') \<Longrightarrow> kph (snd (f w)) = kph w \<Longrightarrow> kph w' = kph w"
  by simp

lemma kph_UpdateImpl_setup [simp]: "kph (snd (UpdateImpl_setup env w)) = kph w"
  unfolding UpdateImpl_setup_def
  by (simp add: kph_bind kph_run kph_lift split: option.splits prod.splits)

lemma kph_UpdateImpl_invite [simp]: "kph (snd (UpdateImpl_invite env l w)) = kph w"
  by (simp add: UpdateImpl_invite_def Let_def split: prod.splits)

lemma kph_UpdateImpl_sign [simp]: "kph (snd (UpdateImpl_sign env l w)) = kph w"
proof -
  obtain b1 w1 where s: "SignPartial env (builder l) w = (b1, w1)"
    by (cases "SignPartial env (builder l) w")
  have w1: "kph w1 = kph w" using kph_SignPartial [of env "builder l" w] s by simp
  show ?thesis
    using w1 by (simp add: UpdateImpl_sign_def s Let_def kph_bind split: prod.splits)
qed

lemma kph_validate_rest:
  "kph (snd (FinalizeSignature env b (if c then VerifyPayment env w else w))) = kph w"
  by simp

lemma kph_UpdateImpl_validate [simp]: "kph (snd (UpdateImpl_validate env l w)) = kph w"
  unfolding UpdateImpl_validate_def
proof (rule kph_bind)
  show "\<And>w. kph (snd (IsInitiator env w)) = kph w" by simp
next
  fix x w
  obtain b1 w2 where f: "FinalizeSignature env (builder l)
      (if \<not> isSelfTx l \<and> isSender l \<and> x then VerifyPayment env w else w) = (b1, w2)"
    by (cases "FinalizeSignature env (builder l)
      (if \<not> isSelfTx l \<and> isSender l \<and> x then VerifyPayment env w else w)")
  have "kph w2 = kph w"
    using kph_validate_rest [of env "builder l" "\<not> isSelfTx l \<and> isSender l \<and> x" w] f by simp
  then show "kph (snd (if x \<and> \<not> IsPeerSignatureValid env (builder l)
                 then (Inr Return, OnFailed env InvalidPeerSignature True w)
                 else let w1 = if \<not> isSelfTx l \<and> isSender l \<and> x
                               then VerifyPayment env w else w;
                          (b1, w2) = FinalizeSignature env (builder l) w1
                      in (Inr (Next (l\<lparr>builder := b1\<rparr>)), w2))) = kph w"
    by (simp add: f Let_def)
qed

lemma kph_UpdateImpl_register [simp]: "kph (snd (UpdateImpl_register env l w)) = kph w"
  by (simp add: UpdateImpl_register_def kph_bind Let_def split: option.splits)

lemma kph_UpdateImpl_negotiate: "kph (snd (UpdateImpl_negotiate env w)) = kph w"
  by (simp add: UpdateImpl_negotiate_def kph_and_then)


subsection \<open>Completion on the kernel proof\<close>

lemma confirm_coin_Outgoing:
  "m_status c = Outgoing \<Longrightarrow> confirm_coin env h c = c\<lparr>m_status := Spent\<rparr>"
  by (simp add: confirm_coin_def)

lemma confirm_coin_Incoming:
  "m_status c = Incoming \<Longrightarrow>
   confirm_coin env h c = c\<lparr>m_status := Available, m_confirmHeight := h,
                             m_maturity := h + e_Maturity_Std env\<rparr>"
  by (simp add: confirm_coin_def)

lemma UpdateImpl_kernel_proof_done:
  "p_KernelProofHeight (bag w) = Some h \<Longrightarrow> h \<noteq> 0 \<Longrightarrow>
   UpdateImpl_kernel_proof env l w =
     w\<lparr>bag := (bag w)\<lparr>p_Status := Some Completed, p_ModifyTime := Some (e_now env)\<rparr>,
       db := db_save env (map (confirm_coin env h) (GetUnconfirmedOutputs env w)) (db w),
       gateway := gateway w @ [on_tx_completed (e_TxID env)]\<rparr>"
  by (simp add: UpdateImpl_kernel_proof_def get_or_def CompleteTx_def UpdateTxDescription_def
                SetParameter_def gateway_call_def GetUnconfirmedOutputs_def Let_def)

text \<open>
  On the way to the kernel-proof step, a transaction with its initial parameters stored
  and a passing payment-confirmation check leaves the store and the gateway alone: the
  steps only read the bag, write \<^verbatim>\<open>KernelID\<close>, \<^verbatim>\<open>MyNonce\<close> and
  \<^verbatim>\<open>MyAddressID\<close>, and fill the cache of \<^verbatim>\<open>IsInitiator\<close>.
\<close>

lemma and_then_Next:
  "and_then m f w = (Inr (Next y), w2) \<Longrightarrow>
   \<exists>x w1. m w = (Inr (Next x), w1) \<and> f x w1 = (Inr (Next y), w2)"
  by (auto simp: and_then_def split: prod.splits sum.splits flow.splits)

lemma setup_outside:
  assumes "p_BlindingExcess (bag w) = Some x" and "p_Offset (bag w) = Some off"
    and "UpdateImpl_setup env w = (r, wa)"
  shows "db wa = db w \<and> gateway wa = gateway w"
  using assms
  by (auto simp: UpdateImpl_setup_def bind_def ret_def run_def lift_def GetMandatoryParameter_def
                 IsSelfTx_def GetInitialTxParams_def CreateKernel_def SetMyAddressID_def
                 SetParameter_def Let_def
           split: option.splits prod.splits sum.splits if_splits)

lemma invite_Next:
  "UpdateImpl_invite env l w = (Inr (Next l'), w') \<Longrightarrow> w' = w"
  by (auto simp: UpdateImpl_invite_def Let_def split: prod.splits if_splits)

lemma SignPartial_outside:
  "SignPartial env b w = (b', w') \<Longrightarrow> db w' = db w \<and> gateway w' = gateway w"
  by (auto simp: SignPartial_def StoreKernelID_def SetParameter_def Let_def split: option.splits)

lemma IsInitiator_outside:
  "IsInitiator env w = (r, w') \<Longrightarrow> db w' = db w \<and> gateway w' = gateway w"
  by (auto simp: IsInitiator_def bind_def GetMandatoryParameter_def split: option.splits)

lemma sign_Next:
  assumes "UpdateImpl_sign env l w = (Inr (Next l'), w')"
  shows "db w' = db w \<and> gateway w' = gateway w"
proof -
  obtain b1 w1 where s: "SignPartial env (builder l) w = (b1, w1)"
    by (cases "SignPartial env (builder l) w")
  have o: "db w1 = db w \<and> gateway w1 = gateway w"
    using s by (rule SignPartial_outside)
  show ?thesis
    using assms o
    by (auto simp: UpdateImpl_sign_def s Let_def bind_def ret_def AcceptInvitation_def
             split: prod.splits if_splits sum.splits dest: IsInitiator_outside)
qed

lemma FinalizeSignature_outside:
  "FinalizeSignature env b w = (b', w') \<Longrightarrow> db w' = db w \<and> gateway w' = gateway w"
  by (auto simp: FinalizeSignature_def StoreKernelID_def SetParameter_def Let_def split: option.splits)

lemma validate_Next:
  assumes "UpdateImpl_validate env l w = (Inr (Next l'), w')"
    and "IsInitiator env w = (Inr i, w'')"
    and "\<not> (\<not> isSelfTx l \<and> isSender l \<and> i \<and> \<not> payment_confirmed env w''
             \<and> get_PeerVersion w'' \<ge> s_ProtoVersion)"
  shows "db w' = db w \<and> gateway w' = gateway w"
proof -
  have o: "db w'' = db w \<and> gateway w'' = gateway w"
    using assms(2) by (rule IsInitiator_outside)
  have v: "(if \<not> isSelfTx l \<and> isSender l \<and> i then VerifyPayment env w'' else w'') = w''"
    using assms(3) by (auto simp: VerifyPayment_def)
  show ?thesis
    using assms(1) o
    by (auto simp: UpdateImpl_validate_def bind_def assms(2) v Let_def
             split: prod.splits if_splits dest: FinalizeSignature_outside)
qed

lemma validate_Next_IsInitiator:
  "UpdateImpl_validate env l w = (Inr (Next l'), w') \<Longrightarrow> \<exists>i w''. IsInitiator env w = (Inr i, w'')"
  by (cases "IsInitiator env w") (auto simp: UpdateImpl_validate_def bind_def split: sum.splits)

lemma register_Next:
  "UpdateImpl_register env l w = (Inr (Next l'), w') \<Longrightarrow> w' = w"
  by (auto simp: UpdateImpl_register_def bind_def ret_def Let_def
           split: option.splits if_splits prod.splits sum.splits)

lemma negotiate_outside:
  assumes "p_BlindingExcess (bag w) = Some x" and "p_Offset (bag w) = Some off"
    and "UpdateImpl_negotiate env w = (Inr (Next l), w1)"
    and "\<not> payment_check_fails env w"
  shows "db w1 = db w \<and> gateway w1 = gateway w"
proof -
  have split: "UpdateImpl_negotiate env =
      and_then (and_then (UpdateImpl_before_validate env) (UpdateImpl_validate env))
        (UpdateImpl_register env)"
    by (simp add: UpdateImpl_negotiate_def UpdateImpl_before_validate_def)
  from assms(3) obtain ld wd where
    v: "and_then (UpdateImpl_before_validate env) (UpdateImpl_validate env) w = (Inr (Next ld), wd)"
    and r: "UpdateImpl_register env ld wd = (Inr (Next l), w1)"
    unfolding split by (blast dest: and_then_Next)
  from v obtain lc wc where
    bv: "UpdateImpl_before_validate env w = (Inr (Next lc), wc)"
    and va: "UpdateImpl_validate env lc wc = (Inr (Next ld), wd)"
    by (blast dest: and_then_Next)
  from bv obtain lb wb where
    si: "and_then (UpdateImpl_setup env) (UpdateImpl_invite env) w = (Inr (Next lb), wb)"
    and sg: "UpdateImpl_sign env lb wb = (Inr (Next lc), wc)"
    unfolding UpdateImpl_before_validate_def by (blast dest: and_then_Next)
  from si obtain la wa where
    su: "UpdateImpl_setup env w = (Inr (Next la), wa)"
    and iv: "UpdateImpl_invite env la wa = (Inr (Next lb), wb)"
    by (blast dest: and_then_Next)
  have a: "db wa = db w \<and> gateway wa = gateway w"
    using assms(1,2) su by (rule setup_outside)
  have b: "wb = wa" using iv by (rule invite_Next)
  have c: "db wc = db wb \<and> gateway wc = gateway wb" using sg by (rule sign_Next)
  obtain i w'' where ii: "IsInitiator env wc = (Inr i, w'')"
    using validate_Next_IsInitiator [OF va] by blast
  have ok: "\<not> (\<not> isSelfTx lc \<and> isSender lc \<and> i \<and> \<not> payment_confirmed env w''
             \<and> get_PeerVersion w'' \<ge> s_ProtoVersion)"
    using assms(4) by (simp add: payment_check_fails_def bv ii)
  have d: "db wd = db wc \<and> gateway wd = gateway wc"
    using va ii ok by (rule validate_Next)
  have e: "w1 = wd" using r by (rule register_Next)
  from a b c d e show ?thesis by simp
qed

lemma Update_at_kernel_proof:
  assumes "CheckExternalFailures env w = (Inr False, w)"
    and "UpdateImpl_negotiate env w = (Inr (Next l), w1)"
    and "p_KernelProofHeight (bag w) = Some h" and "h \<noteq> 0"
  shows "Update env w =
           w1\<lparr>bag := (bag w1)\<lparr>p_Status := Some Completed, p_ModifyTime := Some (e_now env)\<rparr>,
              db := db_save env (map (confirm_coin env h) (GetUnconfirmedOutputs env w1)) (db w1),
              gateway := gateway w1 @ [on_tx_completed (e_TxID env)]\<rparr>"
proof -
  have "kph w1 = kph w"
    using kph_UpdateImpl_negotiate [of env w] assms(2) by simp
  then have h: "p_KernelProofHeight (bag w1) = Some h"
    using assms(3) by simp
  have impl: "UpdateImpl env w = (Inr (), UpdateImpl_kernel_proof env l w1)"
    by (simp add: UpdateImpl_def assms(2))
  have kp: "UpdateImpl_kernel_proof env l w1 =
     w1\<lparr>bag := (bag w1)\<lparr>p_Status := Some Completed, p_ModifyTime := Some (e_now env)\<rparr>,
        db := db_save env (map (confirm_coin env h) (GetUnconfirmedOutputs env w1)) (db w1),
        gateway := gateway w1 @ [on_tx_completed (e_TxID env)]\<rparr>"
    using h assms(4) by (rule UpdateImpl_kernel_proof_done)
  have "CheckExpired env (UpdateImpl_kernel_proof env l w1) = (Inr (), UpdateImpl_kernel_proof env l w1)"
    by (rule CheckExpired_Completed) (simp add: kp)
  then have "Update env w = UpdateImpl_kernel_proof env l w1"
    by (simp add: Update_after_check [OF assms(1)] impl)
  then show ?thesis by (simp only: kp)
qed

lemma demo_proved_payment_ok:
  "\<not> payment_check_fails demo_env (demo_world demo_proved demo_coins)"
  by code_simp


text \<open>
  Claim C1, amended. Take an \<^verbatim>\<open>Update()\<close> on a transaction that has its initial
  parameters stored (\<^verbatim>\<open>BlindingExcess\<close> and \<^verbatim>\<open>Offset\<close>: every update after the first).
  When it consumes no peer failure, the steps of \<^verbatim>\<open>UpdateImpl\<close> before the kernel proof
  neither return nor throw, the payment-confirmation check does not fail, and the bag
  holds \<^verbatim>\<open>KernelProofHeight = h > 0\<close>, then \<^verbatim>\<open>Update()\<close> saves the unconfirmed coins of
  the store it was called on with their new state, sets the status to \<^verbatim>\<open>Completed\<close>,
  and \<^verbatim>\<open>on_tx_completed\<close> is its only call on the gateway. The unconfirmed coins are
  exactly the coins of that store that are \<^verbatim>\<open>Outgoing\<close> and spent by this transaction,
  which become \<^verbatim>\<open>Spent\<close>, and those that are \<^verbatim>\<open>Incoming\<close> and created by it, which
  become \<^verbatim>\<open>Available\<close> with confirm height \<open>h\<close> and maturity \<open>h\<close> plus the
  standard maturity (in 64-bit arithmetic). Nothing is said of an update whose
  payment-confirmation check fails: there line 416 calls \<^verbatim>\<open>OnFailed\<close> and the source
  goes on without returning.
\<close>

theorem kernel_proof_completes:
  assumes "CheckExternalFailures env w = (Inr False, w)"
    and "p_BlindingExcess (bag w) = Some x" and "p_Offset (bag w) = Some off"
    and "fst (UpdateImpl_negotiate env w) = Inr (Next l)"
    and "\<not> payment_check_fails env w"
    and "p_KernelProofHeight (bag w) = Some h" and "h \<noteq> 0"
  shows "db (Update env w)
           = db_save env (map (confirm_coin env h) (GetUnconfirmedOutputs env w)) (db w)
       \<and> p_Status (bag (Update env w)) = Some Completed
       \<and> gateway (Update env w) = gateway w @ [on_tx_completed (e_TxID env)]
       \<and> (\<forall>c \<in> set (db_visit env (db w)).
             (m_spentTxId c = Some (e_TxID env) \<and> m_status c = Outgoing \<longrightarrow>
                c \<in> set (GetUnconfirmedOutputs env w)
                \<and> confirm_coin env h c = c\<lparr>m_status := Spent\<rparr>)
           \<and> (m_createTxId c = Some (e_TxID env) \<and> m_status c = Incoming \<longrightarrow>
                c \<in> set (GetUnconfirmedOutputs env w)
                \<and> confirm_coin env h c =
                    c\<lparr>m_status := Available, m_confirmHeight := h,
                      m_maturity := h + e_Maturity_Std env\<rparr>))
       \<and> (\<forall>c \<in> set (GetUnconfirmedOutputs env w).
             c \<in> set (db_visit env (db w))
             \<and> ((m_spentTxId c = Some (e_TxID env) \<and> m_status c = Outgoing)
                \<or> (m_createTxId c = Some (e_TxID env) \<and> m_status c = Incoming)))"
proof -
  obtain w1 where n: "UpdateImpl_negotiate env w = (Inr (Next l), w1)"
    using assms(4) by (cases "UpdateImpl_negotiate env w") simp
  have o: "db w1 = db w \<and> gateway w1 = gateway w"
    using assms(2,3) n assms(5) by (rule negotiate_outside)
  then have g: "GetUnconfirmedOutputs env w1 = GetUnconfirmedOutputs env w"
    by (simp add: GetUnconfirmedOutputs_def)
  have u: "Update env w =
           w1\<lparr>bag := (bag w1)\<lparr>p_Status := Some Completed, p_ModifyTime := Some (e_now env)\<rparr>,
              db := db_save env (map (confirm_coin env h) (GetUnconfirmedOutputs env w1)) (db w1),
              gateway := gateway w1 @ [on_tx_completed (e_TxID env)]\<rparr>"
    using assms(1) n assms(6,7) by (rule Update_at_kernel_proof)
  have r1: "db (Update env w)
           = db_save env (map (confirm_coin env h) (GetUnconfirmedOutputs env w)) (db w)"
    using o by (simp add: u g)
  have r2: "p_Status (bag (Update env w)) = Some Completed"
    by (simp add: u)
  have r3: "gateway (Update env w) = gateway w @ [on_tx_completed (e_TxID env)]"
    using o by (simp add: u)
  show ?thesis
    by (intro conjI r1 r2 r3) (auto simp: GetUnconfirmedOutputs_def confirm_coin_def)
qed

text \<open>
  The sample sender with a valid payment confirmation and the proof at height 100: of the
  coins of the store, 1 and 3 become spent, the incoming coin 4 becomes available at
  height 100 with maturity 160, coin 2 is untouched.
\<close>

theorem kernel_proof_completes_witness:
  "CheckExternalFailures demo_env (demo_world demo_proved demo_coins)
     = (Inr False, demo_world demo_proved demo_coins)
   \<and> p_BlindingExcess (bag (demo_world demo_proved demo_coins)) = Some 9
   \<and> p_Offset (bag (demo_world demo_proved demo_coins)) = Some 3
   \<and> fst (UpdateImpl_negotiate demo_env (demo_world demo_proved demo_coins)) \<noteq> Inr Return
   \<and> \<not> payment_check_fails demo_env (demo_world demo_proved demo_coins)
   \<and> p_KernelProofHeight (bag (demo_world demo_proved demo_coins)) = Some 100
   \<and> db (demo_world demo_proved demo_coins) = demo_coins
   \<and> db (Update demo_env (demo_world demo_proved demo_coins)) = demo_confirmed
   \<and> p_Status (bag (Update demo_env (demo_world demo_proved demo_coins))) = Some Completed
   \<and> gateway (Update demo_env (demo_world demo_proved demo_coins)) = [on_tx_completed 42]"
proof -
  let ?w = "demo_world demo_proved demo_coins"
  have c: "CheckExternalFailures demo_env ?w = (Inr False, ?w)"
    by (simp add: CheckExternalFailures_def demo_world_def demo_proved_def demo_invited_def
                  empty_params_def)
  have x: "p_BlindingExcess (bag ?w) = Some 9"
    by (simp add: demo_world_def demo_proved_def demo_invited_def)
  have off: "p_Offset (bag ?w) = Some 3"
    by (simp add: demo_world_def demo_proved_def demo_invited_def)
  have k: "p_KernelProofHeight (bag ?w) = Some 100"
    by (simp add: demo_world_def demo_proved_def)
  have n: "(100 :: Height) \<noteq> 0" by simp
  have f: "fst (UpdateImpl_negotiate demo_env ?w) =
      Inr (Next \<lparr>isSender = True, isSelfTx = False, txState = KernelConfirmation,
           builder =
             \<lparr>m_AmountList = [10], m_Fee = 1, m_Change = 0, m_MinHeight = 0,
                m_MaxHeight = 50, m_Inputs = [4, 7], m_Outputs = [],
                m_Offset = 12, m_BlindingExcess = 9,
                m_Kernel =
                  Some
                   \<lparr>k_Fee = 1, k_Height_Min = 0, k_Height_Max = 50,
                      k_Commitment = 17, k_Signature_NoncePub = 83,
                      k_Signature_k = 88\<rparr>,
                m_MultiSig_Nonce = 77, m_MultiSig_NoncePub = 83,
                m_PeerPublicExcess = 8, m_PeerPublicNonce = 6,
                m_PeerSignature = 2, m_PeerInputs = [],
                m_PeerOutputs = [10], m_PeerOffset = 1,
                m_PartialSignature = 86, m_Message = 17\<rparr>,
           hasPeersInputsAndOutputs = True\<rparr>)"
    by (simp add: demo_proved_negotiated)
  have s: "db_save demo_env
             (map (confirm_coin demo_env 100) (GetUnconfirmedOutputs demo_env ?w)) (db ?w)
           = demo_confirmed"
    by code_simp
  have t: "e_TxID demo_env = 42" by (simp add: demo_env_def)
  have g: "gateway ?w = []" "db ?w = demo_coins" by (simp_all add: demo_world_def)
  from kernel_proof_completes [OF c x off f demo_proved_payment_ok k n]
  have r: "db (Update demo_env ?w)
             = db_save demo_env
                 (map (confirm_coin demo_env 100) (GetUnconfirmedOutputs demo_env ?w)) (db ?w)"
      "p_Status (bag (Update demo_env ?w)) = Some Completed"
      "gateway (Update demo_env ?w) = gateway ?w @ [on_tx_completed (e_TxID demo_env)]"
    by simp_all
  have r0: "fst (UpdateImpl_negotiate demo_env ?w) \<noteq> Inr Return"
    by (simp add: f)
  from c x off r0 demo_proved_payment_ok k g r s t show ?thesis by simp
qed

text \<open>
  Claim C1, as stated, fails. The bag holds \<^verbatim>\<open>KernelProofHeight = 100\<close> and
  \<^verbatim>\<open>TransactionRegistered = false\<close>: \<^verbatim>\<open>UpdateImpl\<close> fails the transaction with
  \<^verbatim>\<open>FailedToRegister\<close> at line 459 and returns before it reads the proof height. The
  status ends \<^verbatim>\<open>Failed\<close>, the store has been rolled back and no coin is
  \<^verbatim>\<open>Spent\<close>.
\<close>

theorem proof_height_alone_counterexample:
  "p_KernelProofHeight (bag (demo_world demo_unregistered demo_coins)) = Some 100
   \<and> p_Status (bag (Update demo_env (demo_world demo_unregistered demo_coins))) = Some Failed
   \<and> db (Update demo_env (demo_world demo_unregistered demo_coins)) = demo_rollbackTx 42 demo_coins
   \<and> gateway (Update demo_env (demo_world demo_unregistered demo_coins))
       = [on_tx_completed 42]"
  by code_simp


subsection \<open>Input selection\<close>

lemma SelectInputs_loop_coins:
  "fst (SelectInputs_loop env coins acc) = map (\<lambda>c. c\<lparr>m_spentTxId := Some (e_TxID env)\<rparr>) coins"
proof (induction coins arbitrary: acc)
  case Nil
  then show ?case by simp
next
  case (Cons coin rest)
  obtain inputs offset totalValue where acc: "acc = (inputs, offset, totalValue)"
    by (cases acc) auto
  show ?case
    using Cons.IH by (simp add: acc Let_def split: prod.splits) (metis fst_conv)
qed

lemma SelectInputs_loop_total:
  "snd (snd (snd (SelectInputs_loop env coins (inputs, offset, totalValue))))
     = totalValue + sum_list (map (\<lambda>c. m_Value (m_ID c)) coins)"
proof (induction coins arbitrary: inputs offset totalValue)
  case Nil
  then show ?case by simp
next
  case (Cons coin rest)
  show ?case
    by (simp add: Let_def split: prod.splits)
       (metis Cons.IH snd_conv add.assoc)
qed

lemma SelectInputs_empty:
  assumes "db_selectCoins env (GetAmount b + m_Fee b) True (db w) = ([], d)"
    and "m_IsInitiator w = Some i \<or> (m_IsInitiator w = None \<and> p_IsInitiator (bag w) = Some i)"
  shows "SelectInputs env b w =
           (Inl (TransactionFailedException (\<not> i) NoInputs), w\<lparr>db := d, m_IsInitiator := Some i\<rparr>)"
  using assms
  by (auto simp: SelectInputs_def Let_def bind_def throw_def IsInitiator_def
                 GetMandatoryParameter_def)

text \<open>
  Claim C2. Take a builder whose change is still 0, as \<^verbatim>\<open>UpdateImpl\<close> constructs it,
  and let the store's selection for amount plus fee return \<open>coins\<close> and the store
  \<open>d\<close>. If \<open>coins\<close> is empty (and \<^verbatim>\<open>IsInitiator\<close> is known), \<^verbatim>\<open>SelectInputs\<close>
  throws the \<^verbatim>\<open>TransactionFailedException\<close> with reason \<^verbatim>\<open>NoInputs\<close>, which
  \<^verbatim>\<open>Update\<close> turns into \<^verbatim>\<open>OnFailed(NoInputs)\<close>; it has saved no coin and set no
  parameter: the store is \<open>d\<close>, as the selection left it. Otherwise it saves the selected
  coins, each with \<^verbatim>\<open>m_spentTxId\<close> set to this transaction, and records as change the sum
  of their values minus amount plus fee (64-bit).
\<close>

theorem select_inputs:
  assumes "m_Change b = 0"
    and "db_selectCoins env (GetAmount b + m_Fee b) True (db w) = (coins, d)"
  shows "(coins = [] \<and> (m_IsInitiator w = Some i \<or> (m_IsInitiator w = None \<and> p_IsInitiator (bag w) = Some i)) \<longrightarrow>
            SelectInputs env b w =
              (Inl (TransactionFailedException (\<not> i) NoInputs), w\<lparr>db := d, m_IsInitiator := Some i\<rparr>)
            \<and> Update_catch env (TransactionFailedException (\<not> i) NoInputs)
                 (w\<lparr>db := d, m_IsInitiator := Some i\<rparr>)
               = OnFailed env NoInputs (\<not> i) (w\<lparr>db := d, m_IsInitiator := Some i\<rparr>))
       \<and> (coins \<noteq> [] \<longrightarrow>
            (\<exists>b' w'. SelectInputs env b w = (Inr b', w')
               \<and> db w' = db_save env (map (\<lambda>c. c\<lparr>m_spentTxId := Some (e_TxID env)\<rparr>) coins) d
               \<and> p_Change (bag w') =
                   Some (sum_list (map (\<lambda>c. m_Value (m_ID c)) coins) - (GetAmount b + m_Fee b))
               \<and> m_Change b' = sum_list (map (\<lambda>c. m_Value (m_ID c)) coins) - (GetAmount b + m_Fee b)
               \<and> gateway w' = gateway w))"
proof -
  have empty: "coins = [] \<Longrightarrow>
      m_IsInitiator w = Some i \<or> (m_IsInitiator w = None \<and> p_IsInitiator (bag w) = Some i) \<Longrightarrow>
      SelectInputs env b w =
        (Inl (TransactionFailedException (\<not> i) NoInputs), w\<lparr>db := d, m_IsInitiator := Some i\<rparr>)"
    using assms(2) by (simp add: SelectInputs_empty)
  obtain coins' inputs offset totalValue where
    loop: "SelectInputs_loop env coins (m_Inputs b, m_Offset b, 0) = (coins', inputs, offset, totalValue)"
    by (cases "SelectInputs_loop env coins (m_Inputs b, m_Offset b, 0)") auto
  have c': "coins' = map (\<lambda>c. c\<lparr>m_spentTxId := Some (e_TxID env)\<rparr>) coins"
    using SelectInputs_loop_coins [of env coins "(m_Inputs b, m_Offset b, 0)"] loop by simp
  have t: "totalValue = sum_list (map (\<lambda>c. m_Value (m_ID c)) coins)"
    using SelectInputs_loop_total [of env coins "m_Inputs b" "m_Offset b" 0] loop by simp
  have some: "coins \<noteq> [] \<Longrightarrow>
      \<exists>b' w'. SelectInputs env b w = (Inr b', w')
         \<and> db w' = db_save env (map (\<lambda>c. c\<lparr>m_spentTxId := Some (e_TxID env)\<rparr>) coins) d
         \<and> p_Change (bag w') =
             Some (sum_list (map (\<lambda>c. m_Value (m_ID c)) coins) - (GetAmount b + m_Fee b))
         \<and> m_Change b' = sum_list (map (\<lambda>c. m_Value (m_ID c)) coins) - (GetAmount b + m_Fee b)
         \<and> gateway w' = gateway w"
    using assms loop
    by (simp add: SelectInputs_def Let_def SetParameter_def c' t)
  from empty some show ?thesis by simp
qed

lemma demo_select_rich:
  "db_selectCoins demo_env (GetAmount (TxBuilder_init demo_env [10] 1) + m_Fee (TxBuilder_init demo_env [10] 1))
      True (db (demo_world demo_fresh demo_rich))
   = ([demo_coin 1 4 Outgoing None None, demo_coin 2 5 Outgoing None None,
       demo_coin 3 7 Outgoing None None],
      [demo_coin 1 4 Outgoing None None, demo_coin 2 5 Outgoing None None,
       demo_coin 3 7 Outgoing None None])"
  by code_simp

lemma demo_select_poor:
  "db_selectCoins demo_env (GetAmount (TxBuilder_init demo_env [10] 1) + m_Fee (TxBuilder_init demo_env [10] 1))
      True (db (demo_world demo_fresh demo_poor))
   = ([], demo_poor)"
  by code_simp

text \<open>
  Amount 10 and fee 1: the store with coins 2 and 3 yields \<^verbatim>\<open>NoInputs\<close> and is
  unchanged; the store with coins 4, 5 and 7 has all three selected and marked, change 5.
\<close>

theorem select_inputs_witness:
  "fst (SelectInputs demo_env (TxBuilder_init demo_env [10] 1) (demo_world demo_fresh demo_poor))
     = Inl (TransactionFailedException False NoInputs)
   \<and> db (world_after (SelectInputs demo_env (TxBuilder_init demo_env [10] 1) (demo_world demo_fresh demo_poor)))
     = demo_poor
   \<and> db (world_after (SelectInputs demo_env (TxBuilder_init demo_env [10] 1) (demo_world demo_fresh demo_rich)))
     = [demo_coin 1 4 Outgoing None (Some 42), demo_coin 2 5 Outgoing None (Some 42),
        demo_coin 3 7 Outgoing None (Some 42)]
   \<and> p_Change (bag (world_after (SelectInputs demo_env (TxBuilder_init demo_env [10] 1) (demo_world demo_fresh demo_rich))))
     = Some 5"
proof -
  let ?b = "TxBuilder_init demo_env [10] 1"
  have z: "m_Change ?b = 0" by (simp add: TxBuilder_init_def)
  have i: "m_IsInitiator (demo_world demo_fresh demo_poor) = Some True
           \<or> (m_IsInitiator (demo_world demo_fresh demo_poor) = None
              \<and> p_IsInitiator (bag (demo_world demo_fresh demo_poor)) = Some True)"
    by (simp add: demo_world_def demo_fresh_def)
  from select_inputs [OF z demo_select_poor, of True] i
  have p: "SelectInputs demo_env ?b (demo_world demo_fresh demo_poor) =
             (Inl (TransactionFailedException False NoInputs),
              (demo_world demo_fresh demo_poor)\<lparr>db := demo_poor, m_IsInitiator := Some True\<rparr>)"
    by simp
  have ne: "[demo_coin 1 4 Outgoing None None, demo_coin 2 5 Outgoing None None,
             demo_coin 3 7 Outgoing None None] \<noteq> []" by simp
  from select_inputs [OF z demo_select_rich] ne
  obtain b' w' where r:
    "SelectInputs demo_env ?b (demo_world demo_fresh demo_rich) = (Inr b', w')"
    "db w' = db_save demo_env
               (map (\<lambda>c. c\<lparr>m_spentTxId := Some (e_TxID demo_env)\<rparr>)
                  [demo_coin 1 4 Outgoing None None, demo_coin 2 5 Outgoing None None,
                   demo_coin 3 7 Outgoing None None])
               [demo_coin 1 4 Outgoing None None, demo_coin 2 5 Outgoing None None,
                demo_coin 3 7 Outgoing None None]"
    "p_Change (bag w') =
       Some (sum_list (map (\<lambda>c. m_Value (m_ID c))
               [demo_coin 1 4 Outgoing None None, demo_coin 2 5 Outgoing None None,
                demo_coin 3 7 Outgoing None None])
             - (GetAmount ?b + m_Fee ?b))"
    by blast
  have s: "db_save demo_env
               (map (\<lambda>c. c\<lparr>m_spentTxId := Some (e_TxID demo_env)\<rparr>)
                  [demo_coin 1 4 Outgoing None None, demo_coin 2 5 Outgoing None None,
                   demo_coin 3 7 Outgoing None None])
               [demo_coin 1 4 Outgoing None None, demo_coin 2 5 Outgoing None None,
                demo_coin 3 7 Outgoing None None]
           = [demo_coin 1 4 Outgoing None (Some 42), demo_coin 2 5 Outgoing None (Some 42),
              demo_coin 3 7 Outgoing None (Some 42)]"
    by code_simp
  have ch: "sum_list (map (\<lambda>c. m_Value (m_ID c))
               [demo_coin 1 4 Outgoing None None, demo_coin 2 5 Outgoing None None,
                demo_coin 3 7 Outgoing None None])
             - (GetAmount ?b + m_Fee ?b) = 5"
    by code_simp
  show ?thesis using p r s ch by simp
qed

text \<open>
  The exception of an empty selection, followed through \<^verbatim>\<open>UpdateImpl\<close> to the
  handler: the first update of a sender whose store cannot pay amount plus fee is
  \<^verbatim>\<open>OnFailed(NoInputs)\<close> on the world the selection left, and the peer is notified
  only by a party that is not the initiator.
\<close>

lemma GetInitialTxParams_fresh:
  "p_BlindingExcess (bag w) = None \<Longrightarrow>
   \<exists>b. GetInitialTxParams (TxBuilder_init env amounts fee) w = (False, b)
       \<and> m_Change b = 0 \<and> m_AmountList b = amounts \<and> m_Fee b = fee"
  by (simp add: GetInitialTxParams_def TxBuilder_init_def Let_def)

lemma Update_without_inputs:
  assumes "p_FailureReason (bag w) = None"
    and "p_IsSender (bag w) = Some True"
    and "p_PeerID (bag w) = Some peer"
    and "p_AmountList (bag w) = None" and "p_Amount (bag w) = Some amount"
    and "p_Fee (bag w) = Some fee"
    and "p_State (bag w) = None \<or> p_State (bag w) = Some Initial"
    and "p_BlindingExcess (bag w) = None"
    and "m_IsInitiator w = Some i \<or> (m_IsInitiator w = None \<and> p_IsInitiator (bag w) = Some i)"
    and "db_selectCoins env (amount + fee) True (db w) = ([], d)"
  shows "Update env w = OnFailed env NoInputs (\<not> i) (w\<lparr>db := d, m_IsInitiator := Some i\<rparr>)"
proof -
  have c: "CheckExternalFailures env w = (Inr False, w)"
    using assms(1) by (simp add: CheckExternalFailures_def)
  obtain b where b: "GetInitialTxParams (TxBuilder_init env [amount] fee) w = (False, b)"
      "m_Change b = 0" "m_AmountList b = [amount]" "m_Fee b = fee"
    using GetInitialTxParams_fresh [OF assms(8), of env "[amount]" fee] by blast
  have a: "GetAmount b + m_Fee b = amount + fee"
    by (simp add: GetAmount_def b)
  have sel: "db_selectCoins env (GetAmount b + m_Fee b) True (db w) = ([], d)"
    using assms(10) by (simp add: a)
  have s: "SelectInputs env b w =
             (Inl (TransactionFailedException (\<not> i) NoInputs), w\<lparr>db := d, m_IsInitiator := Some i\<rparr>)"
    using sel assms(9) by (rule SelectInputs_empty)
  have st: "GetState w = Initial"
    using assms(7) by (auto simp: GetState_def get_or_def)
  have su: "UpdateImpl_setup env w =
             (Inl (TransactionFailedException (\<not> i) NoInputs), w\<lparr>db := d, m_IsInitiator := Some i\<rparr>)"
    using assms(2-6) st b(1) s
    by (simp add: UpdateImpl_setup_def bind_def GetMandatoryParameter_def IsSelfTx_def ret_def
                  CreateInitialParams_def)
  have "UpdateImpl env w =
             (Inl (TransactionFailedException (\<not> i) NoInputs), w\<lparr>db := d, m_IsInitiator := Some i\<rparr>)"
    by (simp add: UpdateImpl_def UpdateImpl_negotiate_def and_then_def su)
  then show ?thesis
    by (simp add: Update_after_check [OF c])
qed

end
